theory Spec2Isabelle
  imports Main "HOL-Library.Word"
begin

section \<open>The P-256 binding of Zenroom (src/zen\_p256.c)\<close>

text \<open>
  The file binds the p256-m curve library and the HASH256 primitive to the Lua host.
  Each C function of the binding is embedded below as a function on an explicit
  \<open>lua_State\<close>; the library routines, whose code is not part of the file, are the
  fields of the record \<open>crypto\<close> and stay parameters of every definition.
\<close>

subsection \<open>Sizes (lines 28--34)\<close>

abbreviation PK_SIZE :: nat where "PK_SIZE \<equiv> 64"
abbreviation UNCOMPRESSED_PK_SIZE :: nat where "UNCOMPRESSED_PK_SIZE \<equiv> 65"
abbreviation COMPRESSED_PK_SIZE :: nat where "COMPRESSED_PK_SIZE \<equiv> 33"
abbreviation PK_COORD_SIZE :: nat where "PK_COORD_SIZE \<equiv> 32"
abbreviation SK_SIZE :: nat where "SK_SIZE \<equiv> 32"
abbreviation HASH_SIZE :: nat where "HASH_SIZE \<equiv> 32"
abbreviation SIG_SIZE :: nat where "SIG_SIZE \<equiv> 64"

subsection \<open>Octets, Lua values and the host state\<close>

type_synonym byte = "8 word"

text \<open>
  The C struct \<open>octet\<close>: the fields the binding touches are \<open>len\<close> and \<open>val\<close>.
  \<open>val\<close> is the memory behind the pointer, indexed from 0; the logical value of an octet
  is its first \<open>len\<close> bytes.
\<close>

record octet =
  len :: nat
  val :: "nat \<Rightarrow> byte"

definition octet_bytes :: "octet \<Rightarrow> byte list" where
  "octet_bytes oc = map (val oc) [0..<len oc]"

text \<open>The bytes a library routine reads through a pointer to an array of \<open>n\<close> bytes.\<close>

definition peek :: "nat \<Rightarrow> (nat \<Rightarrow> byte) \<Rightarrow> byte list" where
  "peek n v = map v [0..<n]"

text \<open>The memory after a library routine has written the bytes \<open>bs\<close> through a pointer.\<close>

definition poke :: "byte list \<Rightarrow> (nat \<Rightarrow> byte) \<Rightarrow> (nat \<Rightarrow> byte)" where
  "poke bs v = (\<lambda>i. if i < length bs then bs ! i else v i)"

datatype lua_value = LNil | LBoolean bool | LOctet octet | LOther

text \<open>One entry per call into the curve library, with the arguments it was given.\<close>

datatype event =
    Call_gen_keypair "octet option"
  | Call_publickey "byte list"
  | Call_validate_pubkey "byte list"
  | Call_uncompress_publickey "byte list"
  | Call_compress_publickey "byte list"
  | Call_ecdsa_sign "octet option" "byte list" "byte list" nat
  | Call_ecdsa_verify "byte list" "byte list" "byte list" nat

text \<open>
  The host state: the Lua stack of the running C function (position 1 first), the Zenroom
  context \<open>Z\<close> that carries the random generator, the answers of the allocator to the
  coming requests (\<open>None\<close>: it returns NULL; \<open>Some m\<close>: a fresh buffer whose
  uninitialised content is \<open>m\<close>; no answer left: NULL), and the calls made into the
  curve library so far.
\<close>

record 'z lua_State =
  stack :: "lua_value list"
  zen :: 'z
  heap :: "(nat \<Rightarrow> byte) option list"
  calls :: "event list"

text \<open>
  The routines of p256-m.h and of the HASH256 primitive. A pointer argument that is read
  becomes the bytes read, a pointer argument that is written becomes the bytes written,
  the \<open>int\<close> result is the status (0 is success).
\<close>

record ('z, 'h) crypto =
  p256_gen_keypair :: "'z \<Rightarrow> octet option \<Rightarrow> 'z \<times> int \<times> byte list \<times> byte list"
  p256_publickey :: "byte list \<Rightarrow> int \<times> byte list"
  p256_validate_pubkey :: "byte list \<Rightarrow> int"
  p256_uncompress_publickey :: "byte list \<Rightarrow> int \<times> byte list"
  p256_compress_publickey :: "byte list \<Rightarrow> int \<times> byte list"
  p256_ecdsa_sign :: "'z \<Rightarrow> octet option \<Rightarrow> byte list \<Rightarrow> byte list \<Rightarrow> nat \<Rightarrow> 'z \<times> int \<times> byte list"
  p256_ecdsa_verify :: "byte list \<Rightarrow> byte list \<Rightarrow> byte list \<Rightarrow> nat \<Rightarrow> int"
  HASH256_init :: 'h
  HASH256_process :: "'h \<Rightarrow> byte \<Rightarrow> 'h"
  HASH256_hash :: "'h \<Rightarrow> byte list"

text \<open>
  How a C function of the binding ends: it raised \<open>failed_msg\<close>, it returned the top
  values of its stack, it announced more results than its stack holds, or it
  dereferenced NULL.
\<close>

datatype outcome =
    Threw string
  | Returned "lua_value list"
  | Underflow
  | Crashed

subsection \<open>Host helpers\<close>

text \<open>
  Modelled from the spec: \<open>o_arg\<close>, \<open>o_alloc\<close> and \<open>o_new\<close> (zen\_octet.c) and the
  macros \<open>THROW\<close> and \<open>END\<close> (zen\_error.h) are not in the file. A stack value
  \<open>LOctet oc\<close> is an argument that \<open>o_arg\<close> delivers as the octet \<open>oc\<close>; for any
  other value and for a position beyond the top \<open>o_arg\<close> returns NULL. \<open>o_alloc\<close>
  returns a fresh octet of length 0 or NULL; \<open>o_new\<close> does the same and pushes the
  octet on the stack. The size of the buffer behind a fresh octet is not modelled.
  \<open>THROW\<close> surfaces the message to the caller as an error; \<open>END(n)\<close> returns the
  \<open>n\<close> topmost stack values. \<open>o_free\<close> releases memory and changes nothing that is
  modelled here.
\<close>

definition lua_gettop :: "'z lua_State \<Rightarrow> nat" where
  "lua_gettop L = length (stack L)"

definition lua_pushnil :: "'z lua_State \<Rightarrow> 'z lua_State" where
  "lua_pushnil L = L\<lparr>stack := stack L @ [LNil]\<rparr>"

definition lua_pushboolean :: "'z lua_State \<Rightarrow> bool \<Rightarrow> 'z lua_State" where
  "lua_pushboolean L b = L\<lparr>stack := stack L @ [LBoolean b]\<rparr>"

definition o_arg :: "'z lua_State \<Rightarrow> nat \<Rightarrow> octet option" where
  "o_arg L pos =
     (if 1 \<le> pos \<and> pos \<le> length (stack L)
      then (case stack L ! (pos - 1) of LOctet oc \<Rightarrow> Some oc | _ \<Rightarrow> None)
      else None)"

definition o_alloc :: "'z lua_State \<Rightarrow> nat \<Rightarrow> octet option \<times> 'z lua_State" where
  "o_alloc L sz =
     (case heap L of
        [] \<Rightarrow> (None, L)
      | None # h \<Rightarrow> (None, L\<lparr>heap := h\<rparr>)
      | Some m # h \<Rightarrow> (Some \<lparr>len = 0, val = m\<rparr>, L\<lparr>heap := h\<rparr>))"

definition o_new :: "'z lua_State \<Rightarrow> nat \<Rightarrow> octet option \<times> 'z lua_State" where
  "o_new L sz =
     (case o_alloc L sz of
        (None, L1) \<Rightarrow> (None, L1)
      | (Some oc, L1) \<Rightarrow> (Some oc, L1\<lparr>stack := stack L1 @ [LOctet oc]\<rparr>))"

text \<open>
  The octet pushed by \<open>o_new\<close> is a reference: a later write through the C pointer is
  seen in the stack slot. In each function below the octet written is the topmost slot.
\<close>

definition store_top :: "'z lua_State \<Rightarrow> octet \<Rightarrow> 'z lua_State" where
  "store_top L oc = L\<lparr>stack := (stack L)[length (stack L) - 1 := LOctet oc]\<rparr>"

definition lua_return :: "nat \<Rightarrow> 'z lua_State \<Rightarrow> outcome" where
  "lua_return n L =
     (if n \<le> length (stack L) then Returned (drop (length (stack L) - n) (stack L))
      else Underflow)"

text \<open>The block after the label \<open>end:\<close> followed by \<open>END(n)\<close>.\<close>

definition finish :: "string option \<Rightarrow> nat \<Rightarrow> 'z lua_State \<Rightarrow> outcome \<times> 'z lua_State" where
  "finish failed_msg n L =
     (case failed_msg of
        Some msg \<Rightarrow> (Threw msg, L)
      | None \<Rightarrow> (lua_return n L, L))"

definition log_call :: "event \<Rightarrow> 'z lua_State \<Rightarrow> 'z lua_State" where
  "log_call e L = L\<lparr>calls := calls L @ [e]\<rparr>"

subsection \<open>allocate\_raw\_public\_key (lines 45--88)\<close>

text \<open>
  The result is the C return value, \<open>*res_pk\<close>, \<open>*failed_msg\<close> (which every caller
  initialises to NULL) and the state.
\<close>

definition allocate_raw_public_key ::
  "('z, 'h) crypto \<Rightarrow> 'z lua_State \<Rightarrow> nat \<Rightarrow> int \<times> octet option \<times> string option \<times> 'z lua_State"
where
  "allocate_raw_public_key C L pk_pos =
     (case o_arg L pk_pos of
        None \<Rightarrow> (1, None, Some ''Could not allocate public key'', L)
      | Some pk \<Rightarrow>
         (case o_alloc L PK_SIZE of
            (None, L1) \<Rightarrow> (1, None, Some ''Could not allocate raw public key'', L1)
          | (Some res0, L1) \<Rightarrow>
             (let res_pk = res0\<lparr>len := PK_SIZE\<rparr> in
              if len pk = PK_SIZE then
                (0, Some (res_pk\<lparr>val := fold (\<lambda>i v. v(i := val pk i)) [0..<PK_SIZE] (val res_pk)\<rparr>),
                 None, L1)
              else if len pk = UNCOMPRESSED_PK_SIZE then
                (if val pk 0 \<noteq> 0x04 then
                   (1, Some res_pk, Some ''Invalid long public key prefix: 0x04 expected'', L1)
                 else
                   (0, Some (res_pk\<lparr>val := fold (\<lambda>i v. v(i := val pk (i + 1))) [0..<PK_SIZE] (val res_pk)\<rparr>),
                    None, L1))
              else if len pk = COMPRESSED_PK_SIZE then
                (if val pk 0 \<noteq> 0x02 \<and> val pk 0 \<noteq> 0x03 then
                   (1, Some res_pk,
                    Some ''Invalid compressed public key prefix: 0x02 or 0x03 expected'', L1)
                 else
                   (case p256_uncompress_publickey C (peek COMPRESSED_PK_SIZE (val pk)) of
                      (res, out) \<Rightarrow>
                        (res, Some (res_pk\<lparr>val := poke out (val res_pk)\<rparr>), None,
                         log_call (Call_uncompress_publickey (peek COMPRESSED_PK_SIZE (val pk))) L1)))
              else (1, Some res_pk, Some ''Invalid public key length'', L1))))"

subsection \<open>p256\_keygen (lines 90--103)\<close>

text \<open>
  \<open>sk->len\<close> is written before \<open>sk\<close> is tested, so a NULL from \<open>o_new\<close> is
  dereferenced. The status of \<open>p256_gen_keypair\<close> is not read, and \<open>pub\<close> is a local
  array that is dropped at the end.
\<close>

definition p256_keygen :: "('z, 'h) crypto \<Rightarrow> 'z lua_State \<Rightarrow> outcome \<times> 'z lua_State" where
  "p256_keygen C L =
     (case o_new L SK_SIZE of
        (None, L1) \<Rightarrow> (Crashed, L1)
      | (Some sk0, L1) \<Rightarrow>
         (let sk = sk0\<lparr>len := SK_SIZE\<rparr>;
              L2 = store_top L1 sk
          in case p256_gen_keypair C (zen L2) None of
               (Z', ret, priv, pub) \<Rightarrow>
                 (let L3 = store_top (log_call (Call_gen_keypair None) (L2\<lparr>zen := Z'\<rparr>))
                             (sk\<lparr>val := poke priv (val sk)\<rparr>)
                  in finish None 1 L3)))"

subsection \<open>p256\_pubgen (lines 105--141)\<close>

definition p256_pubgen :: "('z, 'h) crypto \<Rightarrow> 'z lua_State \<Rightarrow> outcome \<times> 'z lua_State" where
  "p256_pubgen C L =
     (case o_arg L 1 of
        None \<Rightarrow> finish (Some ''Could not allocate secret key'') 1 L
      | Some sk \<Rightarrow>
         if len sk \<noteq> SK_SIZE then
           finish (Some ''Invalid size for P256 secret key'') 1 (lua_pushnil L)
         else
           (case o_new L PK_SIZE of
              (None, L1) \<Rightarrow> finish (Some ''Could not allocate public key'') 1 L1
            | (Some pk0, L1) \<Rightarrow>
               (let pk = pk0\<lparr>len := PK_SIZE\<rparr> in
                case p256_publickey C (peek SK_SIZE (val sk)) of
                  (ret, out) \<Rightarrow>
                    (let L2 = store_top (log_call (Call_publickey (peek SK_SIZE (val sk))) L1)
                                (pk\<lparr>val := poke out (val pk)\<rparr>)
                     in if ret \<noteq> 0 then finish (Some ''Could not generate public key'') 1 L2
                        else finish None 1 L2))))"

subsection \<open>p256\_pubcheck (lines 150--163)\<close>

definition p256_pubcheck :: "('z, 'h) crypto \<Rightarrow> 'z lua_State \<Rightarrow> outcome \<times> 'z lua_State" where
  "p256_pubcheck C L =
     (case allocate_raw_public_key C L 1 of
        (ret, raw_pk, failed_msg, L1) \<Rightarrow>
          if ret \<noteq> 0 then finish failed_msg 1 L1
          else
            (case raw_pk of
               None \<Rightarrow> (Crashed, L1)
             | Some raw \<Rightarrow>
                (let L2 = lua_pushboolean
                            (log_call (Call_validate_pubkey (peek PK_SIZE (val raw))) L1)
                            (p256_validate_pubkey C (peek PK_SIZE (val raw)) = 0)
                 in finish failed_msg 1 L2)))"

subsection \<open>p256\_sign (lines 165--230)\<close>

text \<open>
  \<open>k\<close> stays NULL unless the call has more than two arguments. The octet \<open>k\<close> itself
  is handed to \<open>p256_ecdsa_sign\<close>; the secret is read as \<open>SK_SIZE\<close> bytes and the
  digest is passed with the length \<open>HASH_SIZE\<close>.
\<close>

definition p256_sign :: "('z, 'h) crypto \<Rightarrow> 'z lua_State \<Rightarrow> outcome \<times> 'z lua_State" where
  "p256_sign C L =
     (let n_args = lua_gettop L in
      case o_arg L 1 of
        None \<Rightarrow> finish (Some ''Could not allocate secret key'') 1 L
      | Some sk \<Rightarrow>
         (case o_arg L 2 of
            None \<Rightarrow> finish (Some ''Could not allocate message'') 1 L
          | Some m \<Rightarrow>
             if len sk \<noteq> SK_SIZE then
               finish (Some ''Invalid size for ECDSA secret key'') 1 (lua_pushnil L)
             else
               (let sha256 = HASH256_init C;
                    sha256 = fold (\<lambda>i sh. HASH256_process C sh (val m i)) [0..<len m] sha256;
                    hash = HASH256_hash C sha256
                in case o_new L SIG_SIZE of
                     (None, L1) \<Rightarrow> finish (Some ''Could not allocate signature'') 1 L1
                   | (Some sig0, L1) \<Rightarrow>
                      (let sig = sig0\<lparr>len := SIG_SIZE\<rparr>;
                           L2 = store_top L1 sig;
                           k = (if n_args > 2 then o_arg L2 3 else None)
                       in if n_args > 2 \<and> k = None then
                            finish (Some ''Could not allocate ephemeral key'') 1 L2
                          else
                            (case p256_ecdsa_sign C (zen L2) k (peek SK_SIZE (val sk)) hash HASH_SIZE of
                               (Z', ret, out) \<Rightarrow>
                                 (let L3 = store_top
                                             (log_call (Call_ecdsa_sign k (peek SK_SIZE (val sk)) hash HASH_SIZE)
                                                (L2\<lparr>zen := Z'\<rparr>))
                                             (sig\<lparr>val := poke out (val sig)\<rparr>)
                                  in if ret \<noteq> 0 then finish (Some ''Could not sign message'') 1 L3
                                     else finish None 1 L3))))))"

subsection \<open>p256\_verify (lines 232--276)\<close>

definition p256_verify :: "('z, 'h) crypto \<Rightarrow> 'z lua_State \<Rightarrow> outcome \<times> 'z lua_State" where
  "p256_verify C L =
     (case allocate_raw_public_key C L 1 of
        (ret, raw_pk, failed_msg, L1) \<Rightarrow>
          if ret \<noteq> 0 then finish failed_msg 1 L1
          else
            (case o_arg L1 2 of
               None \<Rightarrow> finish (Some ''Could not allocate message'') 1 L1
             | Some m \<Rightarrow>
                (case o_arg L1 3 of
                   None \<Rightarrow> finish (Some ''Could not allocate signature'') 1 L1
                 | Some sig \<Rightarrow>
                    if len sig \<noteq> SIG_SIZE then
                      finish (Some ''Invalid size for P256 signature'') 1 (lua_pushnil L1)
                    else
                      (let sha256 = HASH256_init C;
                           sha256 = fold (\<lambda>i sh. HASH256_process C sh (val m i)) [0..<len m] sha256;
                           hash = HASH256_hash C sha256
                       in case raw_pk of
                            None \<Rightarrow> (Crashed, L1)
                          | Some raw \<Rightarrow>
                             (let L2 = lua_pushboolean
                                         (log_call (Call_ecdsa_verify (peek SIG_SIZE (val sig))
                                                      (peek PK_SIZE (val raw)) hash HASH_SIZE) L1)
                                         (p256_ecdsa_verify C (peek SIG_SIZE (val sig))
                                            (peek PK_SIZE (val raw)) hash HASH_SIZE = 0)
                              in finish failed_msg 1 L2)))))"

subsection \<open>p256\_pub\_xy (lines 278--310)\<close>

text \<open>
  Each coordinate is an octet requested with \<open>PK_COORD_SIZE + 1\<close> bytes; the zero byte
  goes to index \<open>PK_COORD_SIZE + 1\<close> and \<open>len\<close> is set to \<open>PK_COORD_SIZE\<close>.
\<close>

definition p256_pub_xy :: "('z, 'h) crypto \<Rightarrow> 'z lua_State \<Rightarrow> outcome \<times> 'z lua_State" where
  "p256_pub_xy C L =
     (case allocate_raw_public_key C L 1 of
        (ret, raw_pk, failed_msg, L1) \<Rightarrow>
          if ret \<noteq> 0 then finish failed_msg 2 L1
          else
            (case raw_pk of
               None \<Rightarrow> (Crashed, L1)
             | Some raw \<Rightarrow>
                (case o_new L1 (PK_COORD_SIZE + 1) of
                   (None, L2) \<Rightarrow> finish (Some ''Could not create x coordinate'') 2 L2
                 | (Some x0, L2) \<Rightarrow>
                    (let x1 = x0\<lparr>val := fold (\<lambda>i v. v(i := val raw i)) [0..<PK_COORD_SIZE] (val x0)\<rparr>;
                         x2 = x1\<lparr>val := (val x1)(PK_COORD_SIZE + 1 := 0x0)\<rparr>;
                         x = x2\<lparr>len := PK_COORD_SIZE\<rparr>;
                         L3 = store_top L2 x
                     in case o_new L3 (PK_COORD_SIZE + 1) of
                          (None, L4) \<Rightarrow> finish (Some ''Could not create y coordinate'') 2 L4
                        | (Some y0, L4) \<Rightarrow>
                           (let y1 = y0\<lparr>val := fold (\<lambda>i v. v(i := val raw (PK_COORD_SIZE + i)))
                                                  [0..<PK_COORD_SIZE] (val y0)\<rparr>;
                                y2 = y1\<lparr>val := (val y1)(PK_COORD_SIZE + 1 := 0x0)\<rparr>;
                                y = y2\<lparr>len := PK_COORD_SIZE\<rparr>;
                                L5 = store_top L4 y
                            in finish failed_msg 2 L5)))))"

subsection \<open>p256\_compress\_pub (lines 318--341)\<close>

definition p256_compress_pub :: "('z, 'h) crypto \<Rightarrow> 'z lua_State \<Rightarrow> outcome \<times> 'z lua_State" where
  "p256_compress_pub C L =
     (case allocate_raw_public_key C L 1 of
        (ret, raw_pk, failed_msg, L1) \<Rightarrow>
          if ret \<noteq> 0 then finish failed_msg 1 L1
          else
            (case raw_pk of
               None \<Rightarrow> (Crashed, L1)
             | Some raw \<Rightarrow>
                (case o_new L1 COMPRESSED_PK_SIZE of
                   (None, L2) \<Rightarrow> finish (Some ''Could not create compressed public key'') 1 L2
                 | (Some c0, L2) \<Rightarrow>
                    (let compressed_pk = c0\<lparr>len := COMPRESSED_PK_SIZE\<rparr> in
                     case p256_compress_publickey C (peek PK_SIZE (val raw)) of
                       (ret2, out) \<Rightarrow>
                         (let L3 = store_top
                                     (log_call (Call_compress_publickey (peek PK_SIZE (val raw))) L2)
                                     (compressed_pk\<lparr>val := poke out (val compressed_pk)\<rparr>)
                          in if ret2 \<noteq> 0 then finish (Some ''Could not compress public key'') 1 L3
                             else finish failed_msg 1 L3)))))"

subsection \<open>The digest as the specification words it\<close>

text \<open>
  ``digest = Hash(message)'': the message bytes are absorbed first to last into a fresh
  hash state, and the state is finalised.
\<close>

definition Hash :: "('z, 'h) crypto \<Rightarrow> byte list \<Rightarrow> byte list" where
  "Hash C msg = HASH256_hash C (foldl (HASH256_process C) (HASH256_init C) msg)"

subsection \<open>Concrete inputs\<close>

text \<open>The octet that holds exactly the bytes \<open>bs\<close>.\<close>

definition bytes_octet :: "byte list \<Rightarrow> octet" where
  "bytes_octet bs = \<lparr>len = length bs, val = (\<lambda>i. if i < length bs then bs ! i else 0)\<rparr>"

text \<open>
  A host state at the entry of a C function called with the arguments \<open>args\<close>: the
  allocator has three buffers to give, each filled with the byte 0xAA.
\<close>

definition host :: "lua_value list \<Rightarrow> nat lua_State" where
  "host args =
     \<lparr>stack = args, zen = 0,
      heap = [Some (\<lambda>i. 0xAA), Some (\<lambda>i. 0xAA), Some (\<lambda>i. 0xAA)],
      calls = []\<rparr>"

text \<open>
  A small instance of the library for evaluating the binding. Its decompression
  rejects the X coordinate 1, for which P-256 has no point, and otherwise answers
  X followed by X; its compression answers the prefix 0x02 and X; its hash state is the
  list of bytes absorbed, its digest 32 copies of their number.
\<close>

definition X_one :: "byte list" where
  "X_one = replicate 31 0 @ [1]"

definition toy :: "(nat, byte list) crypto" where
  "toy =
     \<lparr>p256_gen_keypair = (\<lambda>z k. (Suc z, 0, replicate 32 (of_nat z), replicate 64 (of_nat z))),
      p256_publickey = (\<lambda>sk. (0, sk @ sk)),
      p256_validate_pubkey = (\<lambda>pk. 0),
      p256_uncompress_publickey = (\<lambda>c. if tl c = X_one then (1, []) else (0, tl c @ tl c)),
      p256_compress_publickey = (\<lambda>pk. (0, 2 # take 32 pk)),
      p256_ecdsa_sign = (\<lambda>z k sk h n. (z, 0, h @ sk)),
      p256_ecdsa_verify = (\<lambda>sg pk h n. if take 32 sg = h then 0 else 1),
      HASH256_init = [],
      HASH256_process = (\<lambda>sh b. sh @ [b]),
      HASH256_hash = (\<lambda>sh. replicate 32 (of_nat (length sh)))\<rparr>"

text \<open>The same library with a random generator that fails: key generation reports -1
  and writes nothing.\<close>

definition toy_rng_failed :: "(nat, byte list) crypto" where
  "toy_rng_failed = toy\<lparr>p256_gen_keypair := (\<lambda>z k. (z, - 1, [], []))\<rparr>"

subsection \<open>Point compression as the specification words it\<close>

text \<open>
  The two routines of the curve library that compress and decompress a point are given
  here a model of their own, for a curve \<open>y\<^sup>2 = x\<^sup>3 + a x + b\<close> over the integers
  modulo \<open>p\<close>; P-256 is one choice of \<open>p\<close>, \<open>a\<close> and \<open>b\<close>. A coordinate is 32 bytes,
  most significant first. A raw key is valid when its 64 bytes are two coordinates below
  \<open>p\<close> that satisfy the curve equation.
\<close>

definition be_decode :: "byte list \<Rightarrow> nat" where
  "be_decode bs = foldl (\<lambda>n b. 256 * n + unat b) 0 bs"

fun be_encode :: "nat \<Rightarrow> nat \<Rightarrow> byte list" where
  "be_encode 0 n = []"
| "be_encode (Suc k) n = be_encode k (n div 256) @ [of_nat (n mod 256)]"

definition curve_rhs :: "nat \<Rightarrow> nat \<Rightarrow> nat \<Rightarrow> nat \<Rightarrow> nat" where
  "curve_rhs p a b x = (x * x * x + a * x + b) mod p"

definition on_curve :: "nat \<Rightarrow> nat \<Rightarrow> nat \<Rightarrow> byte list \<Rightarrow> bool" where
  "on_curve p a b raw =
     (length raw = 64 \<and> be_decode (take 32 raw) < p \<and> be_decode (drop 32 raw) < p \<and>
      (be_decode (drop 32 raw) * be_decode (drop 32 raw)) mod p = curve_rhs p a b (be_decode (take 32 raw)))"

definition is_prime :: "nat \<Rightarrow> bool" where
  "is_prime p = (1 < p \<and> (\<forall>d \<in> {2..<p}. \<not> d dvd p))"

text \<open>
  Modelled from the spec: \<open>p256_compress_publickey\<close>, a routine of the curve library
  p256-m whose code is not among the sources. ``Compressed key: 33-byte encoding storing
  X plus a 1-byte parity indicator for Y'', with the prefix 0x02 or 0x03: the prefix is
  0x02 for an even and 0x03 for an odd Y, and X follows.
\<close>

definition compress_spec :: "byte list \<Rightarrow> int \<times> byte list" where
  "compress_spec raw = (0, (if odd (be_decode (drop 32 raw)) then 0x03 else 0x02) # take 32 raw)"

text \<open>
  Modelled from the spec: \<open>p256_uncompress_publickey\<close>, a routine of the curve library
  p256-m whose code is not among the sources. ``Y is recoverable from X + parity'': the
  answer is X followed by the Y below \<open>p\<close> that satisfies the curve equation and has
  the parity the prefix names; the status is non-zero when ``the encoded X has no valid
  corresponding point''.
\<close>

definition uncompress_spec :: "nat \<Rightarrow> nat \<Rightarrow> nat \<Rightarrow> byte list \<Rightarrow> int \<times> byte list" where
  "uncompress_spec p a b c =
     (let X = tl c; x = be_decode X in
      if \<not> x < p then (1, [])
      else case find (\<lambda>y. (y * y) mod p = curve_rhs p a b x \<and> odd y = (hd c = 0x03)) [0..<p] of
             None \<Rightarrow> (1, [])
           | Some y \<Rightarrow> (0, X @ be_encode 32 y))"

text \<open>The library \<open>toy\<close> with the compression of the curve \<open>y\<^sup>2 = x\<^sup>3 + x + 1\<close> modulo 23.\<close>

definition curve23 :: "(nat, byte list) crypto" where
  "curve23 = toy\<lparr>p256_compress_publickey := compress_spec,
                  p256_uncompress_publickey := uncompress_spec 23 1 1\<rparr>"

section \<open>Properties\<close>

subsection \<open>Auxiliary facts\<close>

lemma fold_upd_upt:
  "fold (\<lambda>i v. v(i := f i)) [0..<n] v0 = (\<lambda>j. if j < n then f j else v0 j)"
  by (induction n) (auto simp: fun_eq_iff)

lemma peek_poke: "length bs = n \<Longrightarrow> peek n (poke bs v) = bs"
  by (auto simp: peek_def poke_def intro: nth_equalityI)

lemma poke_Nil [simp]: "poke [] v = v"
  by (simp add: poke_def)

lemma o_alloc_Some:
  "heap L = Some m # hp \<Longrightarrow> o_alloc L sz = (Some \<lparr>len = 0, val = m\<rparr>, L\<lparr>heap := hp\<rparr>)"
  by (simp add: o_alloc_def)

lemma o_new_Some:
  "heap L = Some m # hp \<Longrightarrow>
     o_new L sz = (Some \<lparr>len = 0, val = m\<rparr>,
                   L\<lparr>heap := hp, stack := stack L @ [LOctet \<lparr>len = 0, val = m\<rparr>]\<rparr>)"
  by (simp add: o_new_def o_alloc_Some)

lemma store_top_fields [simp]:
  "stack (store_top L oc) = (stack L)[length (stack L) - 1 := LOctet oc]"
  "zen (store_top L oc) = zen L"
  "heap (store_top L oc) = heap L"
  "calls (store_top L oc) = calls L"
  by (simp_all add: store_top_def)

lemma log_call_fields [simp]:
  "stack (log_call e L) = stack L"
  "zen (log_call e L) = zen L"
  "heap (log_call e L) = heap L"
  "calls (log_call e L) = calls L @ [e]"
  by (simp_all add: log_call_def)

lemma lua_pushnil_fields [simp]:
  "stack (lua_pushnil L) = stack L @ [LNil]"
  "zen (lua_pushnil L) = zen L"
  "heap (lua_pushnil L) = heap L"
  "calls (lua_pushnil L) = calls L"
  by (simp_all add: lua_pushnil_def)

lemma lua_pushboolean_fields [simp]:
  "stack (lua_pushboolean L b) = stack L @ [LBoolean b]"
  "zen (lua_pushboolean L b) = zen L"
  "heap (lua_pushboolean L b) = heap L"
  "calls (lua_pushboolean L b) = calls L"
  by (simp_all add: lua_pushboolean_def)

lemma o_arg_stack: "stack L1 = stack L \<Longrightarrow> o_arg L1 p = o_arg L p"
  by (simp add: o_arg_def)

lemma o_arg_updates [simp]:
  "o_arg (L\<lparr>heap := h\<rparr>) p = o_arg L p"
  "o_arg (L\<lparr>calls := c\<rparr>) p = o_arg L p"
  "o_arg (L\<lparr>zen := z\<rparr>) p = o_arg L p"
  by (simp_all add: o_arg_def)

lemma o_arg_store_top_push:
  "p \<le> length (stack L) \<Longrightarrow>
     o_arg (store_top (L\<lparr>heap := hp, stack := stack L @ [v]\<rparr>) oc) p = o_arg L p"
  by (cases "1 \<le> p") (auto simp add: o_arg_def store_top_def nth_append nth_list_update)

lemma o_arg_in_range: "o_arg L p = Some oc \<Longrightarrow> 1 \<le> p \<and> p \<le> length (stack L)"
  by (simp add: o_arg_def split: if_splits)

lemma update_second_last: "(xs @ [a, b])[Suc (length xs) := c] = xs @ [a, c]"
  by (simp add: list_update_append)

lemma take_map_upt: "take k (map f [0..<k + n]) = map f [0..<k]"
  by (simp add: take_map)

lemma drop_map_upt: "drop k (map f [0..<k + n]) = map (\<lambda>j. f (k + j)) [0..<n]"
  by (rule nth_equalityI) simp_all

lemma octet_halves:
  assumes "len oc = 64"
  shows "take 32 (octet_bytes oc) = map (val oc) [0..<32]"
    and "drop 32 (octet_bytes oc) = map (\<lambda>j. val oc (32 + j)) [0..<32]"
  using assms take_map_upt [of 32 "val oc" 32] drop_map_upt [of 32 "val oc" 32]
  by (simp_all add: octet_bytes_def)

lemma fold_process:
  "fold (\<lambda>i sh. f sh (g i)) xs s = foldl f s (map g xs)"
  by (induction xs arbitrary: s) simp_all

lemma hash_loop:
  "HASH256_hash C (fold (\<lambda>i sh. HASH256_process C sh (val m i)) [0..<len m] (HASH256_init C))
     = Hash C (octet_bytes m)"
  by (simp add: Hash_def octet_bytes_def fold_process)

subsection \<open>Facts about the concrete inputs\<close>

lemma len_bytes_octet [simp]: "len (bytes_octet bs) = length bs"
  by (simp add: bytes_octet_def)

lemma val_bytes_octet_0 [simp]: "val (bytes_octet (b # bs)) 0 = b"
  by (simp add: bytes_octet_def)

lemma octet_bytes_bytes_octet: "octet_bytes (bytes_octet bs) = bs"
proof -
  have "map (\<lambda>i. if i < length bs then bs ! i else 0) [0..<length bs] = map ((!) bs) [0..<length bs]"
    by simp
  then show ?thesis
    by (simp add: octet_bytes_def bytes_octet_def map_nth)
qed

lemma raw_copy_bytes:
  "len pk = 64 \<Longrightarrow>
     octet_bytes \<lparr>len = 64, val = (\<lambda>j. if j < 64 then val pk j else m j)\<rparr> = octet_bytes pk"
  by (simp add: octet_bytes_def)

lemma o_arg_host [simp]:
  "o_arg (host (a # as)) (Suc 0) = (case a of LOctet oc \<Rightarrow> Some oc | _ \<Rightarrow> None)"
  "o_arg (host (a # b # bs)) 2 = (case b of LOctet oc \<Rightarrow> Some oc | _ \<Rightarrow> None)"
  "o_arg (host (a # b # c # cs)) 3 = (case c of LOctet oc \<Rightarrow> Some oc | _ \<Rightarrow> None)"
  by (simp_all add: o_arg_def host_def)

lemma host_fields [simp]:
  "stack (host as) = as"
  "zen (host as) = 0"
  "heap (host as) = [Some (\<lambda>i. 0xAA), Some (\<lambda>i. 0xAA), Some (\<lambda>i. 0xAA)]"
  "calls (host as) = []"
  by (simp_all add: host_def)

lemma toy_fields [simp]:
  "p256_gen_keypair toy = (\<lambda>z k. (Suc z, 0, replicate 32 (of_nat z), replicate 64 (of_nat z)))"
  "p256_publickey toy = (\<lambda>sk. (0, sk @ sk))"
  "p256_validate_pubkey toy = (\<lambda>pk. 0)"
  "p256_uncompress_publickey toy = (\<lambda>c. if tl c = X_one then (1, []) else (0, tl c @ tl c))"
  "p256_compress_publickey toy = (\<lambda>pk. (0, 2 # take 32 pk))"
  "p256_ecdsa_sign toy = (\<lambda>z k sk h n. (z, 0, h @ sk))"
  "p256_ecdsa_verify toy = (\<lambda>sg pk h n. if take 32 sg = h then 0 else 1)"
  by (simp_all add: toy_def)

lemma Hash_toy: "Hash toy bs = replicate 32 (of_nat (length bs))"
proof -
  have "foldl (\<lambda>sh b. sh @ [b]) acc bs = acc @ bs" for acc :: "byte list"
    by (induction bs arbitrary: acc) simp_all
  then show ?thesis
    by (simp add: Hash_def toy_def)
qed

lemma toy_uncompress_7:
  "p256_uncompress_publickey toy (0x02 # replicate 32 7) = (0, replicate 64 7)"
proof -
  have "hd (replicate 32 (7::byte)) \<noteq> hd X_one"
    by (simp add: X_one_def hd_append)
  then have "replicate 32 (7::byte) \<noteq> X_one"
    by metis
  moreover have "replicate 32 (7::byte) @ replicate 32 7 = replicate 64 7"
    by (simp add: replicate_add [symmetric])
  ultimately show ?thesis
    by simp
qed

subsection \<open>The public-key normalizer\<close>

lemma allocate_raw_64:
  assumes "o_arg L pos = Some pk" and "heap L = Some m # hp" and "len pk = 64"
  shows "allocate_raw_public_key C L pos =
     (0, Some \<lparr>len = 64, val = (\<lambda>j. if j < 64 then val pk j else m j)\<rparr>, None, L\<lparr>heap := hp\<rparr>)"
  using assms
  by (simp add: allocate_raw_public_key_def o_alloc_Some fold_upd_upt cong: if_cong)

lemma allocate_raw_65:
  assumes "o_arg L pos = Some pk" and "heap L = Some m # hp" and "len pk = 65"
  shows "allocate_raw_public_key C L pos =
     (if val pk 0 \<noteq> 4
      then (1, Some \<lparr>len = 64, val = m\<rparr>,
            Some ''Invalid long public key prefix: 0x04 expected'', L\<lparr>heap := hp\<rparr>)
      else (0, Some \<lparr>len = 64, val = (\<lambda>j. if j < 64 then val pk (j + 1) else m j)\<rparr>,
            None, L\<lparr>heap := hp\<rparr>))"
  using assms
  by (simp add: allocate_raw_public_key_def o_alloc_Some fold_upd_upt cong: if_cong)

lemma allocate_raw_33:
  assumes "o_arg L pos = Some pk" and "heap L = Some m # hp" and "len pk = 33"
  shows "allocate_raw_public_key C L pos =
     (if val pk 0 \<noteq> 2 \<and> val pk 0 \<noteq> 3
      then (1, Some \<lparr>len = 64, val = m\<rparr>,
            Some ''Invalid compressed public key prefix: 0x02 or 0x03 expected'',
            L\<lparr>heap := hp\<rparr>)
      else (fst (p256_uncompress_publickey C (octet_bytes pk)),
            Some \<lparr>len = 64, val = poke (snd (p256_uncompress_publickey C (octet_bytes pk))) m\<rparr>,
            None,
            log_call (Call_uncompress_publickey (octet_bytes pk)) (L\<lparr>heap := hp\<rparr>)))"
  using assms
  by (simp add: allocate_raw_public_key_def o_alloc_Some peek_def octet_bytes_def
      split: prod.splits)

lemma allocate_raw_other:
  assumes "o_arg L pos = Some pk" and "heap L = Some m # hp"
    and "len pk \<noteq> 64" and "len pk \<noteq> 65" and "len pk \<noteq> 33"
  shows "allocate_raw_public_key C L pos =
     (1, Some \<lparr>len = 64, val = m\<rparr>, Some ''Invalid public key length'', L\<lparr>heap := hp\<rparr>)"
  using assms by (simp add: allocate_raw_public_key_def o_alloc_Some)

lemma allocate_stack:
  "stack (snd (snd (snd (allocate_raw_public_key C L p)))) = stack L"
  by (simp add: allocate_raw_public_key_def o_alloc_def log_call_def Let_def
      split: option.split list.split prod.split)

lemma allocate_zen:
  "zen (snd (snd (snd (allocate_raw_public_key C L p)))) = zen L"
  by (simp add: allocate_raw_public_key_def o_alloc_def log_call_def Let_def
      split: option.split list.split prod.split)

lemma allocate_success:
  "fst (allocate_raw_public_key C L p) = 0 \<longrightarrow>
     fst (snd (snd (allocate_raw_public_key C L p))) = None \<and>
     (\<exists>raw. fst (snd (allocate_raw_public_key C L p)) = Some raw \<and> len raw = 64)"
  by (simp add: allocate_raw_public_key_def o_alloc_def log_call_def Let_def
      split: option.split list.split prod.split)

lemma allocate_frame:
  assumes "allocate_raw_public_key C L p = (r, q, msg, L1)"
  shows "stack L1 = stack L \<and> zen L1 = zen L"
  using allocate_stack [of C L p] allocate_zen [of C L p] by (simp add: assms)

lemma allocate_zero:
  assumes "allocate_raw_public_key C L p = (0, q, msg, L1)"
  shows "msg = None \<and> (\<exists>raw. q = Some raw \<and> len raw = 64)"
  using allocate_success [of C L p] by (simp add: assms)

lemma allocate_calls:
  "o_arg L p = Some pk \<Longrightarrow>
     calls (snd (snd (snd (allocate_raw_public_key C L p)))) = calls L
     \<or> calls (snd (snd (snd (allocate_raw_public_key C L p)))) =
         calls L @ [Call_uncompress_publickey (octet_bytes pk)]"
  by (simp add: allocate_raw_public_key_def o_alloc_def Let_def peek_def octet_bytes_def
      split: option.split list.split prod.split)

text \<open>
  Claim C1. Given its argument as an octet and a result buffer from the allocator,
  \<open>allocate_raw_public_key\<close> decides on the length and the first byte alone. A 64-byte
  key is copied through; a 65-byte key must start with 0x04 (otherwise the message
  ``Invalid long public key prefix'', the specification's InvalidEncoding) and yields
  its bytes 1..64; a 33-byte key must start with 0x02 or 0x03 (otherwise ``Invalid
  compressed public key prefix'', InvalidEncoding again) and is handed to
  \<open>p256_uncompress_publickey\<close>, whose status and output become the result; any other
  length gives ``Invalid public key length'' (InvalidKeyLength).
\<close>

theorem normalizer_dispatch:
  assumes "o_arg L pos = Some pk" and "heap L = Some m # hp"
  shows
   "(len pk = 64 \<longrightarrow>
       (\<exists>raw. allocate_raw_public_key C L pos = (0, Some raw, None, L\<lparr>heap := hp\<rparr>)
          \<and> octet_bytes raw = octet_bytes pk))
  \<and> (len pk = 65 \<and> val pk 0 \<noteq> 0x04 \<longrightarrow>
       (\<exists>raw. allocate_raw_public_key C L pos =
          (1, Some raw, Some ''Invalid long public key prefix: 0x04 expected'', L\<lparr>heap := hp\<rparr>)))
  \<and> (len pk = 65 \<and> val pk 0 = 0x04 \<longrightarrow>
       (\<exists>raw. allocate_raw_public_key C L pos = (0, Some raw, None, L\<lparr>heap := hp\<rparr>)
          \<and> octet_bytes raw = map (val pk) [1..<65]))
  \<and> (len pk = 33 \<and> val pk 0 \<noteq> 0x02 \<and> val pk 0 \<noteq> 0x03 \<longrightarrow>
       (\<exists>raw. allocate_raw_public_key C L pos =
          (1, Some raw, Some ''Invalid compressed public key prefix: 0x02 or 0x03 expected'',
           L\<lparr>heap := hp\<rparr>)))
  \<and> (len pk = 33 \<and> (val pk 0 = 0x02 \<or> val pk 0 = 0x03) \<longrightarrow>
       (\<exists>raw. allocate_raw_public_key C L pos =
          (fst (p256_uncompress_publickey C (octet_bytes pk)), Some raw, None,
           log_call (Call_uncompress_publickey (octet_bytes pk)) (L\<lparr>heap := hp\<rparr>))
          \<and> octet_bytes raw = peek 64 (poke (snd (p256_uncompress_publickey C (octet_bytes pk))) m)))
  \<and> (len pk \<noteq> 64 \<and> len pk \<noteq> 65 \<and> len pk \<noteq> 33 \<longrightarrow>
       (\<exists>raw. allocate_raw_public_key C L pos =
          (1, Some raw, Some ''Invalid public key length'', L\<lparr>heap := hp\<rparr>)))"
proof (intro conjI impI)
  assume "len pk = 64"
  then show "\<exists>raw. allocate_raw_public_key C L pos = (0, Some raw, None, L\<lparr>heap := hp\<rparr>)
          \<and> octet_bytes raw = octet_bytes pk"
    using assms by (simp add: allocate_raw_64 octet_bytes_def)
next
  assume "len pk = 65 \<and> val pk 0 \<noteq> 0x04"
  then show "\<exists>raw. allocate_raw_public_key C L pos =
          (1, Some raw, Some ''Invalid long public key prefix: 0x04 expected'', L\<lparr>heap := hp\<rparr>)"
    using assms by (simp add: allocate_raw_65)
next
  assume "len pk = 65 \<and> val pk 0 = 0x04"
  moreover have "map (\<lambda>j. if j < 64 then val pk (j + 1) else m j) [0..<64] = map (val pk) [1..<65]"
    by (rule nth_equalityI) simp_all
  ultimately show "\<exists>raw. allocate_raw_public_key C L pos = (0, Some raw, None, L\<lparr>heap := hp\<rparr>)
          \<and> octet_bytes raw = map (val pk) [1..<65]"
    using assms by (simp add: allocate_raw_65 octet_bytes_def)
next
  assume "len pk = 33 \<and> val pk 0 \<noteq> 0x02 \<and> val pk 0 \<noteq> 0x03"
  then show "\<exists>raw. allocate_raw_public_key C L pos =
          (1, Some raw, Some ''Invalid compressed public key prefix: 0x02 or 0x03 expected'',
           L\<lparr>heap := hp\<rparr>)"
    using assms by (simp add: allocate_raw_33)
next
  assume "len pk = 33 \<and> (val pk 0 = 0x02 \<or> val pk 0 = 0x03)"
  then show "\<exists>raw. allocate_raw_public_key C L pos =
          (fst (p256_uncompress_publickey C (octet_bytes pk)), Some raw, None,
           log_call (Call_uncompress_publickey (octet_bytes pk)) (L\<lparr>heap := hp\<rparr>))
          \<and> octet_bytes raw = peek 64 (poke (snd (p256_uncompress_publickey C (octet_bytes pk))) m)"
    using assms by (auto simp add: allocate_raw_33 octet_bytes_def peek_def)
next
  assume "len pk \<noteq> 64 \<and> len pk \<noteq> 65 \<and> len pk \<noteq> 33"
  then show "\<exists>raw. allocate_raw_public_key C L pos =
          (1, Some raw, Some ''Invalid public key length'', L\<lparr>heap := hp\<rparr>)"
    using assms by (simp add: allocate_raw_other)
qed

theorem normalizer_dispatch_witness:
  "(\<exists>raw. allocate_raw_public_key toy (host [LOctet (bytes_octet (replicate 64 7))]) 1
        = (0, Some raw, None, host [LOctet (bytes_octet (replicate 64 7))]\<lparr>heap := [Some (\<lambda>i. 0xAA), Some (\<lambda>i. 0xAA)]\<rparr>)
      \<and> octet_bytes raw = replicate 64 7)
 \<and> (\<exists>raw. allocate_raw_public_key toy (host [LOctet (bytes_octet (0x01 # replicate 64 7))]) 1
        = (1, Some raw, Some ''Invalid long public key prefix: 0x04 expected'',
           host [LOctet (bytes_octet (0x01 # replicate 64 7))]\<lparr>heap := [Some (\<lambda>i. 0xAA), Some (\<lambda>i. 0xAA)]\<rparr>))
 \<and> (\<exists>raw. allocate_raw_public_key toy (host [LOctet (bytes_octet (0x04 # replicate 64 7))]) 1
        = (0, Some raw, None, host [LOctet (bytes_octet (0x04 # replicate 64 7))]\<lparr>heap := [Some (\<lambda>i. 0xAA), Some (\<lambda>i. 0xAA)]\<rparr>)
      \<and> octet_bytes raw = replicate 64 7)
 \<and> (\<exists>raw. allocate_raw_public_key toy (host [LOctet (bytes_octet (0x00 # replicate 32 7))]) 1
        = (1, Some raw, Some ''Invalid compressed public key prefix: 0x02 or 0x03 expected'',
           host [LOctet (bytes_octet (0x00 # replicate 32 7))]\<lparr>heap := [Some (\<lambda>i. 0xAA), Some (\<lambda>i. 0xAA)]\<rparr>))
 \<and> (\<exists>raw. allocate_raw_public_key toy (host [LOctet (bytes_octet (0x02 # replicate 32 7))]) 1
        = (0, Some raw, None,
           log_call (Call_uncompress_publickey (0x02 # replicate 32 7))
             (host [LOctet (bytes_octet (0x02 # replicate 32 7))]\<lparr>heap := [Some (\<lambda>i. 0xAA), Some (\<lambda>i. 0xAA)]\<rparr>))
      \<and> octet_bytes raw = replicate 64 7)
 \<and> (\<exists>raw. allocate_raw_public_key toy (host [LOctet (bytes_octet (replicate 10 7))]) 1
        = (1, Some raw, Some ''Invalid public key length'',
           host [LOctet (bytes_octet (replicate 10 7))]\<lparr>heap := [Some (\<lambda>i. 0xAA), Some (\<lambda>i. 0xAA)]\<rparr>))"
proof -
  have arg: "o_arg (host [LOctet k]) 1 = Some k" for k
    by (simp add: o_arg_def host_def)
  have hp: "heap (host [LOctet k]) = Some (\<lambda>i. 0xAA) # [Some (\<lambda>i. 0xAA), Some (\<lambda>i. 0xAA)]" for k
    by (simp add: host_def)
  have b64: "octet_bytes (bytes_octet (replicate 64 7)) = replicate 64 7"
    by (simp add: octet_bytes_bytes_octet)
  have b65: "map (val (bytes_octet (0x04 # replicate 64 7))) [Suc 0..<65] = replicate 64 7"
    by (rule nth_equalityI) (simp_all add: bytes_octet_def)
  have b33: "octet_bytes (bytes_octet (0x02 # replicate 32 7)) = 0x02 # replicate 32 7"
    by (simp add: octet_bytes_bytes_octet)
  have i1: "\<exists>raw. allocate_raw_public_key toy (host [LOctet (bytes_octet (replicate 64 7))]) 1
        = (0, Some raw, None, host [LOctet (bytes_octet (replicate 64 7))]\<lparr>heap := [Some (\<lambda>i. 0xAA), Some (\<lambda>i. 0xAA)]\<rparr>)
      \<and> octet_bytes raw = replicate 64 7"
    using normalizer_dispatch [OF arg hp, of "bytes_octet (replicate 64 7)" toy]
    by (simp add: b64)
  have i2: "\<exists>raw. allocate_raw_public_key toy (host [LOctet (bytes_octet (0x01 # replicate 64 7))]) 1
        = (1, Some raw, Some ''Invalid long public key prefix: 0x04 expected'',
           host [LOctet (bytes_octet (0x01 # replicate 64 7))]\<lparr>heap := [Some (\<lambda>i. 0xAA), Some (\<lambda>i. 0xAA)]\<rparr>)"
    using normalizer_dispatch [OF arg hp, of "bytes_octet (0x01 # replicate 64 7)" toy]
    by simp
  have i3: "\<exists>raw. allocate_raw_public_key toy (host [LOctet (bytes_octet (0x04 # replicate 64 7))]) 1
        = (0, Some raw, None, host [LOctet (bytes_octet (0x04 # replicate 64 7))]\<lparr>heap := [Some (\<lambda>i. 0xAA), Some (\<lambda>i. 0xAA)]\<rparr>)
      \<and> octet_bytes raw = replicate 64 7"
    using normalizer_dispatch [OF arg hp, of "bytes_octet (0x04 # replicate 64 7)" toy]
    by (simp add: b65)
  have i4: "\<exists>raw. allocate_raw_public_key toy (host [LOctet (bytes_octet (0x00 # replicate 32 7))]) 1
        = (1, Some raw, Some ''Invalid compressed public key prefix: 0x02 or 0x03 expected'',
           host [LOctet (bytes_octet (0x00 # replicate 32 7))]\<lparr>heap := [Some (\<lambda>i. 0xAA), Some (\<lambda>i. 0xAA)]\<rparr>)"
    using normalizer_dispatch [OF arg hp, of "bytes_octet (0x00 # replicate 32 7)" toy]
    by simp
  have i5: "\<exists>raw. allocate_raw_public_key toy (host [LOctet (bytes_octet (0x02 # replicate 32 7))]) 1
        = (0, Some raw, None,
           log_call (Call_uncompress_publickey (0x02 # replicate 32 7))
             (host [LOctet (bytes_octet (0x02 # replicate 32 7))]\<lparr>heap := [Some (\<lambda>i. 0xAA), Some (\<lambda>i. 0xAA)]\<rparr>))
      \<and> octet_bytes raw = replicate 64 7"
    using normalizer_dispatch [OF arg hp, of "bytes_octet (0x02 # replicate 32 7)" toy]
    by (simp add: b33 toy_uncompress_7 peek_poke del: toy_fields)
  have i6: "\<exists>raw. allocate_raw_public_key toy (host [LOctet (bytes_octet (replicate 10 7))]) 1
        = (1, Some raw, Some ''Invalid public key length'',
           host [LOctet (bytes_octet (replicate 10 7))]\<lparr>heap := [Some (\<lambda>i. 0xAA), Some (\<lambda>i. 0xAA)]\<rparr>)"
    using normalizer_dispatch [OF arg hp, of "bytes_octet (replicate 10 7)" toy]
    by simp
  from i1 i2 i3 i4 i5 i6 show ?thesis
    by (intro conjI)
qed

subsection \<open>Key generation\<close>

lemma keygen_main:
  assumes "heap L = Some m # hp" and "p256_gen_keypair C (zen L) None = (Z', ret, priv, pub)"
  shows "fst (p256_keygen C L) = Returned [LOctet \<lparr>len = 32, val = poke priv m\<rparr>]"
  using assms
  by (simp add: p256_keygen_def o_new_def o_alloc_def Let_def finish_def lua_return_def)

lemma keygen_no_buffer:
  "heap L = [] \<or> (\<exists>hp. heap L = None # hp) \<Longrightarrow> fst (p256_keygen C L) = Crashed"
  by (auto simp add: p256_keygen_def o_new_def o_alloc_def)

text \<open>
  Claim C3, amended. A call of \<open>p256_keygen\<close> that returns, returns exactly one value:
  the secret-key octet of length 32, holding what \<open>p256_gen_keypair\<close> wrote as private
  key. The public key the library computes lands in a local array and is not returned.
\<close>

theorem keygen_returns_secret_only:
  assumes "fst (p256_keygen C L) = Returned vs"
  shows "\<exists>sk. vs = [LOctet sk] \<and> len sk = SK_SIZE \<and> length (octet_bytes sk) = 32
      \<and> (\<exists>m hp. heap L = Some m # hp
            \<and> val sk = poke (fst (snd (snd (p256_gen_keypair C (zen L) None)))) m)"
proof (cases "heap L")
  case Nil
  then show ?thesis
    using assms keygen_no_buffer [of L C] by simp
next
  case (Cons a hp)
  show ?thesis
  proof (cases a)
    case None
    then show ?thesis
      using assms Cons keygen_no_buffer [of L C] by simp
  next
    case (Some m)
    obtain Z' ret priv pub where g: "p256_gen_keypair C (zen L) None = (Z', ret, priv, pub)"
      by (cases "p256_gen_keypair C (zen L) None") auto
    have "vs = [LOctet \<lparr>len = 32, val = poke priv m\<rparr>]"
      using keygen_main [OF _ g, of m hp] Cons Some assms by simp
    then show ?thesis
      using Cons Some g by (simp add: octet_bytes_def)
  qed
qed

theorem keygen_returns_secret_only_witness:
  "fst (p256_keygen toy (host [])) = Returned [LOctet \<lparr>len = 32, val = poke (replicate 32 0) (\<lambda>i. 0xAA)\<rparr>]
 \<and> (\<exists>sk. [LOctet \<lparr>len = 32, val = poke (replicate 32 0) (\<lambda>i. 0xAA)\<rparr>] = [LOctet sk]
        \<and> len sk = 32 \<and> length (octet_bytes sk) = 32
        \<and> val sk = poke (replicate 32 0) (\<lambda>i. 0xAA))"
proof -
  have r: "fst (p256_keygen toy (host [])) =
      Returned [LOctet \<lparr>len = 32, val = poke (replicate 32 0) (\<lambda>i. 0xAA)\<rparr>]"
    using keygen_main [of "host []" "\<lambda>i. 0xAA" "[Some (\<lambda>i. 0xAA), Some (\<lambda>i. 0xAA)]" toy 1 0
        "replicate 32 0" "replicate 64 0"]
    by simp
  show ?thesis
    using keygen_returns_secret_only [OF r] r by simp
qed

text \<open>
  Claim C3 as stated fails: a successful \<open>p256_keygen\<close> returns the secret key alone,
  not the pair of secret and public key.
\<close>

theorem keygen_two_results_counterexample:
  "fst (p256_keygen toy (host [])) =
     Returned [LOctet \<lparr>len = 32, val = poke (replicate 32 0) (\<lambda>i. 0xAA)\<rparr>]
 \<and> fst (p256_keygen toy (host [])) \<noteq>
     Returned [LOctet \<lparr>len = 32, val = poke (replicate 32 0) (\<lambda>i. 0xAA)\<rparr>,
               LOctet \<lparr>len = 64, val = poke (replicate 64 0) (\<lambda>i. 0xAA)\<rparr>]"
proof -
  have r: "fst (p256_keygen toy (host [])) =
      Returned [LOctet \<lparr>len = 32, val = poke (replicate 32 0) (\<lambda>i. 0xAA)\<rparr>]"
    using keygen_main [of "host []" "\<lambda>i. 0xAA" "[Some (\<lambda>i. 0xAA), Some (\<lambda>i. 0xAA)]" toy 1 0
        "replicate 32 0" "replicate 64 0"]
    by simp
  then show ?thesis
    by simp
qed

text \<open>
  For every library and every state, \<open>p256_keygen\<close> raises nothing, whatever status
  key generation reports; \<open>p256_pubgen\<close>, next to it, raises when
  \<open>p256_publickey\<close> reports a non-zero status.
\<close>

lemma keygen_never_raises: "fst (p256_keygen C L) \<noteq> Threw msg"
  by (simp add: p256_keygen_def o_new_def o_alloc_def Let_def finish_def lua_return_def
      split: list.split option.split prod.split)

lemma pubgen_tests_status:
  assumes "o_arg L 1 = Some sk" and "len sk = 32" and "heap L = Some m # hp"
    and "fst (p256_publickey C (octet_bytes sk)) \<noteq> 0"
  shows "fst (p256_pubgen C L) = Threw ''Could not generate public key''"
proof -
  have p: "peek 32 (val sk) = octet_bytes sk"
    using assms(2) by (simp add: peek_def octet_bytes_def)
  obtain ret out where e: "p256_publickey C (octet_bytes sk) = (ret, out)"
    by (cases "p256_publickey C (octet_bytes sk)") auto
  with assms(4) have "ret \<noteq> 0"
    by simp
  then show ?thesis
    using assms(1,2,3) e
    by (simp add: p256_pubgen_def o_new_def o_alloc_def Let_def finish_def p)
qed

text \<open>
  Claim C8 against the code: with a library whose key generation reports the status -1
  and writes nothing, \<open>p256_keygen\<close> still returns normally, and the value it returns
  as secret key is the uninitialised buffer. The status of \<open>p256_gen_keypair\<close> is
  never read, while \<open>p256_pubgen\<close>, \<open>p256_sign\<close> and \<open>p256_compress_pub\<close> each
  test the status of their library call.
\<close>

theorem keygen_ignores_status:
  "fst (snd (p256_gen_keypair toy_rng_failed 0 None)) = - 1
 \<and> fst (p256_keygen toy_rng_failed (host [])) = Returned [LOctet \<lparr>len = 32, val = (\<lambda>i. 0xAA)\<rparr>]"
proof -
  have g: "p256_gen_keypair toy_rng_failed (zen (host [])) None = (0, - 1, [], [])"
    by (simp add: toy_rng_failed_def)
  show ?thesis
    using keygen_main [OF _ g, of "\<lambda>i. 0xAA" "[Some (\<lambda>i. 0xAA), Some (\<lambda>i. 0xAA)]"] g
    by simp
qed

subsection \<open>Signing with a supplied ephemeral\<close>

lemma sign_main:
  assumes sk: "o_arg L 1 = Some sk" and m: "o_arg L 2 = Some m" and l: "len sk = 32"
    and hp: "heap L = Some j # hp"
    and k: "k = (if 2 < length (stack L) then o_arg L 3 else None)"
    and kk: "2 < length (stack L) \<longrightarrow> k \<noteq> None"
    and e: "p256_ecdsa_sign C (zen L) k (octet_bytes sk) (Hash C (octet_bytes m)) 32 = (Z', ret, out)"
  shows "fst (p256_sign C L) =
           (if ret \<noteq> 0 then Threw ''Could not sign message''
            else Returned [LOctet \<lparr>len = 64, val = poke out j\<rparr>])
       \<and> calls (snd (p256_sign C L)) =
           calls L @ [Call_ecdsa_sign k (octet_bytes sk) (Hash C (octet_bytes m)) 32]
       \<and> zen (snd (p256_sign C L)) = Z'"
proof -
  have pk: "peek 32 (val sk) = octet_bytes sk"
    using l by (simp add: peek_def octet_bytes_def)
  let ?L2 = "store_top (L\<lparr>heap := hp, stack := stack L @ [LOctet \<lparr>len = 0, val = j\<rparr>]\<rparr>)
               \<lparr>len = 64, val = j\<rparr>"
  show ?thesis
  proof (cases "2 < length (stack L)")
    case True
    with k kk obtain kv where kv: "k = Some kv" and a3: "o_arg L 3 = Some kv"
      by auto
    have k3: "o_arg ?L2 3 = Some kv"
      using True a3 by (simp add: o_arg_store_top_push)
    show ?thesis
      using sk m l True e [unfolded kv]
      by (simp add: p256_sign_def Let_def lua_gettop_def o_new_Some [OF hp] hash_loop pk k3 kv
          finish_def lua_return_def)
  next
    case False
    with k have kn: "k = None"
      by simp
    show ?thesis
      using sk m l False e [unfolded kn]
      by (simp add: p256_sign_def Let_def lua_gettop_def o_new_Some [OF hp] hash_loop pk kn
          finish_def lua_return_def)
  qed
qed

text \<open>
  Claim C10. With a 32-byte secret, a message, any octet \<open>k\<close> as third argument
  and a buffer for the signature, \<open>p256_sign\<close> calls \<open>p256_ecdsa_sign\<close> once, with
  \<open>k\<close> itself, the secret and the digest; it raises ``Could not sign message'' (the
  specification's SigningFailed) exactly when the library reports a non-zero status and
  returns the signature octet otherwise. Neither the length nor the content of \<open>k\<close>
  is looked at.
\<close>

theorem sign_forwards_ephemeral:
  assumes "o_arg L 1 = Some sk" and "len sk = SK_SIZE" and "o_arg L 2 = Some m"
    and "o_arg L 3 = Some k" and "heap L = Some j # hp"
  shows "calls (snd (p256_sign C L)) =
           calls L @ [Call_ecdsa_sign (Some k) (octet_bytes sk) (Hash C (octet_bytes m)) HASH_SIZE]
       \<and> (case p256_ecdsa_sign C (zen L) (Some k) (octet_bytes sk) (Hash C (octet_bytes m)) HASH_SIZE of
            (Z', ret, out) \<Rightarrow>
              fst (p256_sign C L) =
                (if ret \<noteq> 0 then Threw ''Could not sign message''
                 else Returned [LOctet \<lparr>len = SIG_SIZE, val = poke out j\<rparr>]))"
proof -
  have n: "2 < length (stack L)"
    using o_arg_in_range [OF assms(4)] by simp
  obtain Z' ret out where
    e: "p256_ecdsa_sign C (zen L) (Some k) (octet_bytes sk) (Hash C (octet_bytes m)) 32 = (Z', ret, out)"
    by (cases "p256_ecdsa_sign C (zen L) (Some k) (octet_bytes sk) (Hash C (octet_bytes m)) 32") auto
  have kd: "Some k = (if 2 < length (stack L) then o_arg L 3 else None)"
    using n assms(4) by simp
  show ?thesis
    using sign_main [OF assms(1) assms(3) assms(2) assms(5) kd _ e]
    by (simp add: e)
qed

theorem sign_forwards_ephemeral_witness:
  "calls (snd (p256_sign toy (host [LOctet (bytes_octet (replicate 32 5)), LOctet (bytes_octet [1, 2, 3]),
          LOctet (bytes_octet [])]))) =
     [Call_ecdsa_sign (Some (bytes_octet [])) (replicate 32 5) (replicate 32 3) 32]
 \<and> fst (p256_sign toy (host [LOctet (bytes_octet (replicate 32 5)), LOctet (bytes_octet [1, 2, 3]),
          LOctet (bytes_octet [])])) =
     Returned [LOctet \<lparr>len = 64, val = poke (replicate 32 3 @ replicate 32 5) (\<lambda>i. 0xAA)\<rparr>]"
  using sign_forwards_ephemeral [of "host [LOctet (bytes_octet (replicate 32 5)), LOctet (bytes_octet [1, 2, 3]),
          LOctet (bytes_octet [])]" "bytes_octet (replicate 32 5)" "bytes_octet [1, 2, 3]" "bytes_octet []"
          "\<lambda>i. 0xAA" "[Some (\<lambda>i. 0xAA), Some (\<lambda>i. 0xAA)]" toy]
  by (simp add: octet_bytes_bytes_octet Hash_toy)

subsection \<open>Verification\<close>

lemma verify_main:
  assumes "allocate_raw_public_key C L 1 = (0, Some raw, msg, L1)"
    and "o_arg L 2 = Some m" and "o_arg L 3 = Some sg" and "len sg = 64"
  shows "fst (p256_verify C L) =
           Returned [LBoolean (p256_ecdsa_verify C (octet_bytes sg) (octet_bytes raw)
                                 (Hash C (octet_bytes m)) 32 = 0)]
       \<and> calls (snd (p256_verify C L)) =
           calls L1 @ [Call_ecdsa_verify (octet_bytes sg) (octet_bytes raw)
                         (Hash C (octet_bytes m)) 32]"
proof -
  have st: "stack L1 = stack L" and nm: "msg = None" and lr: "len raw = 64"
    using allocate_frame [OF assms(1)] allocate_zero [OF assms(1)] by simp_all
  have a2: "o_arg L1 2 = Some m" and a3: "o_arg L1 3 = Some sg"
    using assms(2,3) o_arg_stack [OF st] by simp_all
  show ?thesis
    using assms(1,4) a2 a3 nm lr
    by (simp add: p256_verify_def finish_def hash_loop lua_return_def
        octet_bytes_def peek_def Let_def)
qed

text \<open>
  Claim C5. When the public key normalizes (status 0) and the message and the signature
  are octets, \<open>p256_verify\<close> raises ``Invalid size for P256 signature'' (the
  specification's InvalidSignatureLength) if the signature is not 64 bytes long, and
  otherwise returns one boolean: whether \<open>p256_ecdsa_verify\<close> answered 0 on the
  signature, the raw key and the digest of the message. A signature that does not match
  is the value false.
\<close>

theorem verify_result:
  assumes "allocate_raw_public_key C L 1 = (0, Some raw, msg, L1)"
    and "o_arg L 2 = Some m" and "o_arg L 3 = Some sg"
  shows "(len sg \<noteq> 64 \<longrightarrow> fst (p256_verify C L) = Threw ''Invalid size for P256 signature'')
       \<and> (len sg = 64 \<longrightarrow> fst (p256_verify C L) =
            Returned [LBoolean (p256_ecdsa_verify C (octet_bytes sg) (octet_bytes raw)
                                  (Hash C (octet_bytes m)) HASH_SIZE = 0)])"
proof -
  from assms(1) have st: "stack L1 = stack L" and nm: "msg = None" and lr: "len raw = 64"
    using allocate_frame [OF assms(1)] allocate_zero [OF assms(1)] by simp_all
  have a2: "o_arg L1 2 = Some m" and a3: "o_arg L1 3 = Some sg"
    using assms(2,3) o_arg_stack [OF st] by simp_all
  show ?thesis
  proof (intro conjI impI)
    assume "len sg \<noteq> 64"
    then show "fst (p256_verify C L) = Threw ''Invalid size for P256 signature''"
      using assms(1) a2 a3 by (simp add: p256_verify_def finish_def)
  next
    assume "len sg = 64"
    then show "fst (p256_verify C L) =
            Returned [LBoolean (p256_ecdsa_verify C (octet_bytes sg) (octet_bytes raw)
                                  (Hash C (octet_bytes m)) HASH_SIZE = 0)]"
      using assms(1) a2 a3 nm lr
      by (simp add: p256_verify_def finish_def hash_loop lua_return_def
          octet_bytes_def peek_def Let_def)
  qed
qed

theorem verify_result_witness:
  "fst (p256_verify toy (host [LOctet (bytes_octet (replicate 64 7)), LOctet (bytes_octet [1, 2, 3]),
          LOctet (bytes_octet (replicate 32 3 @ replicate 32 5))])) = Returned [LBoolean True]
 \<and> fst (p256_verify toy (host [LOctet (bytes_octet (replicate 64 7)), LOctet (bytes_octet [1, 2, 3]),
          LOctet (bytes_octet (replicate 64 9))])) = Returned [LBoolean False]
 \<and> fst (p256_verify toy (host [LOctet (bytes_octet (replicate 64 7)), LOctet (bytes_octet [1, 2, 3]),
          LOctet (bytes_octet (replicate 63 9))])) = Threw ''Invalid size for P256 signature''"
proof -
  let ?pk = "bytes_octet (replicate 64 7)"
  let ?m = "bytes_octet [1, 2, 3]"
  have a: "allocate_raw_public_key toy (host [LOctet ?pk, LOctet ?m, LOctet sg]) 1 =
      (0, Some \<lparr>len = 64, val = (\<lambda>j. if j < 64 then val ?pk j else 0xAA)\<rparr>, None,
       host [LOctet ?pk, LOctet ?m, LOctet sg]\<lparr>heap := [Some (\<lambda>i. 0xAA), Some (\<lambda>i. 0xAA)]\<rparr>)" for sg
    by (rule allocate_raw_64) simp_all
  have 1: "fst (p256_verify toy (host [LOctet ?pk, LOctet ?m,
          LOctet (bytes_octet (replicate 32 3 @ replicate 32 5))])) = Returned [LBoolean True]"
    using verify_result [OF a [of "bytes_octet (replicate 32 3 @ replicate 32 5)"], where m = ?m and sg = "bytes_octet (replicate 32 3 @ replicate 32 5)"]
    by (simp add: Hash_toy octet_bytes_bytes_octet)
  have 2: "fst (p256_verify toy (host [LOctet ?pk, LOctet ?m,
          LOctet (bytes_octet (replicate 64 9))])) = Returned [LBoolean False]"
    using verify_result [OF a [of "bytes_octet (replicate 64 9)"], where m = ?m and sg = "bytes_octet (replicate 64 9)"]
    by (simp add: Hash_toy octet_bytes_bytes_octet)
  have 3: "fst (p256_verify toy (host [LOctet ?pk, LOctet ?m,
          LOctet (bytes_octet (replicate 63 9))])) = Threw ''Invalid size for P256 signature''"
    using verify_result [OF a [of "bytes_octet (replicate 63 9)"], where m = ?m and sg = "bytes_octet (replicate 63 9)"]
    by simp
  from 1 2 3 show ?thesis
    by (intro conjI)
qed

subsection \<open>Validation comes before the library\<close>

text \<open>
  What the validation steps do guarantee. A secret key whose length is not 32 makes
  \<open>p256_sign\<close> raise ``Invalid size for ECDSA secret key'' with no call into the
  library and the context \<open>Z\<close> untouched; a public key of a wrong length or with a
  wrong prefix makes \<open>p256_verify\<close> raise with no call into the library; when the key
  normalizes, a signature whose length is not 64 makes \<open>p256_verify\<close> raise with, at
  most, the decompression call of the normalizer made.
\<close>

theorem validation_short_circuits:
  "(o_arg L 1 = Some sk \<and> o_arg L 2 = Some m \<and> len sk \<noteq> SK_SIZE \<longrightarrow>
      fst (p256_sign C L) = Threw ''Invalid size for ECDSA secret key''
      \<and> calls (snd (p256_sign C L)) = calls L \<and> zen (snd (p256_sign C L)) = zen L)
 \<and> (o_arg L 1 = Some pk \<and>
       ((len pk \<noteq> 64 \<and> len pk \<noteq> 65 \<and> len pk \<noteq> 33) \<or> (len pk = 65 \<and> val pk 0 \<noteq> 0x04)
          \<or> (len pk = 33 \<and> val pk 0 \<noteq> 0x02 \<and> val pk 0 \<noteq> 0x03)) \<longrightarrow>
      (\<exists>msg. fst (p256_verify C L) = Threw msg) \<and> calls (snd (p256_verify C L)) = calls L)
 \<and> (o_arg L 1 = Some pk \<and> fst (allocate_raw_public_key C L 1) = 0
       \<and> o_arg L 2 = Some m \<and> o_arg L 3 = Some sg \<and> len sg \<noteq> SIG_SIZE \<longrightarrow>
      fst (p256_verify C L) = Threw ''Invalid size for P256 signature''
      \<and> (calls (snd (p256_verify C L)) = calls L
          \<or> calls (snd (p256_verify C L)) = calls L @ [Call_uncompress_publickey (octet_bytes pk)]))"
proof -
  have p1: "o_arg L 1 = Some sk \<and> o_arg L 2 = Some m \<and> len sk \<noteq> SK_SIZE \<longrightarrow>
      fst (p256_sign C L) = Threw ''Invalid size for ECDSA secret key''
      \<and> calls (snd (p256_sign C L)) = calls L \<and> zen (snd (p256_sign C L)) = zen L"
    by (simp add: p256_sign_def Let_def finish_def)
  have p2: "o_arg L 1 = Some pk \<and>
       ((len pk \<noteq> 64 \<and> len pk \<noteq> 65 \<and> len pk \<noteq> 33) \<or> (len pk = 65 \<and> val pk 0 \<noteq> 0x04)
          \<or> (len pk = 33 \<and> val pk 0 \<noteq> 0x02 \<and> val pk 0 \<noteq> 0x03)) \<longrightarrow>
      (\<exists>msg. fst (p256_verify C L) = Threw msg) \<and> calls (snd (p256_verify C L)) = calls L"
    by (auto simp add: p256_verify_def allocate_raw_public_key_def o_alloc_def finish_def Let_def
          split: list.split option.split)
  have p3: "o_arg L 1 = Some pk \<and> fst (allocate_raw_public_key C L 1) = 0
       \<and> o_arg L 2 = Some m \<and> o_arg L 3 = Some sg \<and> len sg \<noteq> SIG_SIZE \<longrightarrow>
      fst (p256_verify C L) = Threw ''Invalid size for P256 signature''
      \<and> (calls (snd (p256_verify C L)) = calls L
          \<or> calls (snd (p256_verify C L)) = calls L @ [Call_uncompress_publickey (octet_bytes pk)])"
  proof (rule impI)
    assume h: "o_arg L 1 = Some pk \<and> fst (allocate_raw_public_key C L 1) = 0
       \<and> o_arg L 2 = Some m \<and> o_arg L 3 = Some sg \<and> len sg \<noteq> SIG_SIZE"
    obtain r q msg L1 where a: "allocate_raw_public_key C L 1 = (r, q, msg, L1)"
      by (cases "allocate_raw_public_key C L 1") auto
    with h have r: "r = 0"
      by simp
    have st: "stack L1 = stack L"
      using allocate_frame [OF a] by simp
    have v: "p256_verify C L = (Threw ''Invalid size for P256 signature'', lua_pushnil L1)"
      using h a r o_arg_stack [OF st]
      by (simp add: p256_verify_def finish_def)
    have "calls L1 = calls L \<or> calls L1 = calls L @ [Call_uncompress_publickey (octet_bytes pk)]"
      using allocate_calls [of L 1 pk C] h a by simp
    with v show "fst (p256_verify C L) = Threw ''Invalid size for P256 signature''
      \<and> (calls (snd (p256_verify C L)) = calls L
          \<or> calls (snd (p256_verify C L)) = calls L @ [Call_uncompress_publickey (octet_bytes pk)])"
      by simp
  qed
  from p1 p2 p3 show ?thesis
    by (intro conjI)
qed

theorem validation_short_circuits_witness:
  "fst (p256_sign toy (host [LOctet (bytes_octet (replicate 16 5)), LOctet (bytes_octet [1, 2, 3])])) =
      Threw ''Invalid size for ECDSA secret key''
 \<and> calls (snd (p256_sign toy (host [LOctet (bytes_octet (replicate 16 5)), LOctet (bytes_octet [1, 2, 3])]))) = []
 \<and> zen (snd (p256_sign toy (host [LOctet (bytes_octet (replicate 16 5)), LOctet (bytes_octet [1, 2, 3])]))) = 0
 \<and> (\<exists>msg. fst (p256_verify toy (host [LOctet (bytes_octet (replicate 10 7)), LOctet (bytes_octet [1, 2, 3]),
             LOctet (bytes_octet (replicate 64 9))])) = Threw msg)
 \<and> calls (snd (p256_verify toy (host [LOctet (bytes_octet (replicate 10 7)), LOctet (bytes_octet [1, 2, 3]),
             LOctet (bytes_octet (replicate 64 9))]))) = []
 \<and> fst (p256_verify toy (host [LOctet (bytes_octet (replicate 64 7)), LOctet (bytes_octet [1, 2, 3]),
             LOctet (bytes_octet (replicate 63 9))])) = Threw ''Invalid size for P256 signature''"
proof -
  let ?Ls = "host [LOctet (bytes_octet (replicate 16 5)), LOctet (bytes_octet [1, 2, 3])]"
  let ?Lk = "host [LOctet (bytes_octet (replicate 10 7)), LOctet (bytes_octet [1, 2, 3]),
             LOctet (bytes_octet (replicate 64 9))]"
  let ?Lg = "host [LOctet (bytes_octet (replicate 64 7)), LOctet (bytes_octet [1, 2, 3]),
             LOctet (bytes_octet (replicate 63 9))]"
  have a: "fst (allocate_raw_public_key toy ?Lg 1) = 0"
    using allocate_raw_64 [of ?Lg 1 "bytes_octet (replicate 64 7)" "\<lambda>i. 0xAA"
        "[Some (\<lambda>i. 0xAA), Some (\<lambda>i. 0xAA)]" toy]
    by simp
  have 1: "fst (p256_sign toy ?Ls) = Threw ''Invalid size for ECDSA secret key''
      \<and> calls (snd (p256_sign toy ?Ls)) = [] \<and> zen (snd (p256_sign toy ?Ls)) = 0"
    using validation_short_circuits [of ?Ls "bytes_octet (replicate 16 5)" "bytes_octet [1, 2, 3]" toy]
    by simp
  have 2: "(\<exists>msg. fst (p256_verify toy ?Lk) = Threw msg) \<and> calls (snd (p256_verify toy ?Lk)) = []"
    using validation_short_circuits [of ?Lk _ _ toy "bytes_octet (replicate 10 7)"]
    by simp
  have 3: "fst (p256_verify toy ?Lg) = Threw ''Invalid size for P256 signature''"
    using validation_short_circuits [of ?Lg _ "bytes_octet [1, 2, 3]" toy "bytes_octet (replicate 64 7)"
        "bytes_octet (replicate 63 9)"] a
    by simp
  from 1 2 3 show ?thesis
    by simp
qed

lemma allocate_rejected_key:
  "allocate_raw_public_key toy (host (LOctet (bytes_octet (0x02 # X_one)) # rest)) 1 =
     (1, Some \<lparr>len = 64, val = (\<lambda>i. 0xAA)\<rparr>, None,
      log_call (Call_uncompress_publickey (0x02 # X_one))
        (host (LOctet (bytes_octet (0x02 # X_one)) # rest)\<lparr>heap := [Some (\<lambda>i. 0xAA), Some (\<lambda>i. 0xAA)]\<rparr>))"
proof -
  have l: "len (bytes_octet (0x02 # X_one)) = 33"
    by (simp add: X_one_def)
  show ?thesis
    using allocate_raw_33 [of "host (LOctet (bytes_octet (0x02 # X_one)) # rest)" 1
        "bytes_octet (0x02 # X_one)" "\<lambda>i. 0xAA" "[Some (\<lambda>i. 0xAA), Some (\<lambda>i. 0xAA)]" toy] l
    by (simp add: octet_bytes_bytes_octet)
qed

text \<open>
  Claim C6 against the code: the claim wants every failed validation step of
  \<open>p256_verify\<close>, a malformed public key or a wrong signature length, to end in an
  error. Called with the compressed key 0x02 followed by X = 1, which the library
  rejects, and a signature of 63 bytes, \<open>p256_verify\<close> does stop before
  \<open>p256_ecdsa_verify\<close>, but it raises nothing: the normalizer has left
  \<open>failed_msg\<close> unset, so the function jumps to \<open>end\<close> before the length of the
  signature is ever tested and returns its signature argument.
\<close>

theorem verify_rejected_key_short_signature:
  "fst (p256_verify toy (host [LOctet (bytes_octet (0x02 # X_one)), LOctet (bytes_octet [1, 2, 3]),
          LOctet (bytes_octet (replicate 63 9))])) = Returned [LOctet (bytes_octet (replicate 63 9))]
 \<and> calls (snd (p256_verify toy (host [LOctet (bytes_octet (0x02 # X_one)), LOctet (bytes_octet [1, 2, 3]),
          LOctet (bytes_octet (replicate 63 9))]))) = [Call_uncompress_publickey (0x02 # X_one)]"
  unfolding p256_verify_def allocate_rejected_key
  by (simp add: finish_def lua_return_def)

subsection \<open>One digest for signing and verifying\<close>

text \<open>
  Claim C4. Let \<open>p256_sign\<close> reach the library (a 32-byte secret, a message, a buffer
  for the signature, and an octet as third argument if there is one) and let
  \<open>p256_verify\<close> reach it (the key normalizes, the signature has 64 bytes), on messages
  that hold the same bytes. Then the result of \<open>p256_sign\<close> is that of
  \<open>p256_ecdsa_sign\<close> applied to the digest \<open>Hash\<close> of the message bytes, absorbed
  first to last, with the length 32, and the result of \<open>p256_verify\<close> is that of
  \<open>p256_ecdsa_verify\<close> applied to the very same digest and length; the recorded calls
  carry the same arguments. The empty message is included.
\<close>

theorem sign_verify_same_digest:
  assumes "o_arg Ls 1 = Some sk" and "len sk = SK_SIZE" and "o_arg Ls 2 = Some ms"
    and "heap Ls = Some j # hp"
    and "k = (if 2 < length (stack Ls) then o_arg Ls 3 else None)"
    and "2 < length (stack Ls) \<longrightarrow> k \<noteq> None"
    and "allocate_raw_public_key C Lv 1 = (0, Some raw, msg, L1)"
    and "o_arg Lv 2 = Some mv" and "o_arg Lv 3 = Some sg" and "len sg = SIG_SIZE"
    and "octet_bytes ms = octet_bytes mv"
  shows "(case p256_ecdsa_sign C (zen Ls) k (octet_bytes sk) (Hash C (octet_bytes ms)) HASH_SIZE of
            (Z', ret, out) \<Rightarrow>
              fst (p256_sign C Ls) =
                (if ret \<noteq> 0 then Threw ''Could not sign message''
                 else Returned [LOctet \<lparr>len = SIG_SIZE, val = poke out j\<rparr>])
              \<and> zen (snd (p256_sign C Ls)) = Z')
       \<and> calls (snd (p256_sign C Ls)) =
           calls Ls @ [Call_ecdsa_sign k (octet_bytes sk) (Hash C (octet_bytes ms)) HASH_SIZE]
       \<and> fst (p256_verify C Lv) =
           Returned [LBoolean (p256_ecdsa_verify C (octet_bytes sg) (octet_bytes raw)
                                 (Hash C (octet_bytes ms)) HASH_SIZE = 0)]
       \<and> calls (snd (p256_verify C Lv)) =
           calls L1 @ [Call_ecdsa_verify (octet_bytes sg) (octet_bytes raw)
                         (Hash C (octet_bytes ms)) HASH_SIZE]"
proof -
  obtain Z' ret out where
    e: "p256_ecdsa_sign C (zen Ls) k (octet_bytes sk) (Hash C (octet_bytes ms)) 32 = (Z', ret, out)"
    by (cases "p256_ecdsa_sign C (zen Ls) k (octet_bytes sk) (Hash C (octet_bytes ms)) 32") auto
  note s = sign_main [OF assms(1) assms(3) assms(2) assms(4) assms(5) assms(6) e]
  note v = verify_main [OF assms(7) assms(8) assms(9) assms(10)]
  from s v e assms(11) show ?thesis
    by simp
qed

theorem sign_verify_same_digest_witness:
  "fst (p256_sign toy (host [LOctet (bytes_octet (replicate 32 5)), LOctet (bytes_octet [1, 2, 3])])) =
     Returned [LOctet \<lparr>len = 64, val = poke (replicate 32 3 @ replicate 32 5) (\<lambda>i. 0xAA)\<rparr>]
 \<and> calls (snd (p256_sign toy (host [LOctet (bytes_octet (replicate 32 5)), LOctet (bytes_octet [1, 2, 3])]))) =
     [Call_ecdsa_sign None (replicate 32 5) (replicate 32 3) 32]
 \<and> fst (p256_verify toy (host [LOctet (bytes_octet (replicate 64 7)), LOctet (bytes_octet [1, 2, 3]),
          LOctet (bytes_octet (replicate 32 3 @ replicate 32 5))])) = Returned [LBoolean True]
 \<and> calls (snd (p256_verify toy (host [LOctet (bytes_octet (replicate 64 7)), LOctet (bytes_octet [1, 2, 3]),
          LOctet (bytes_octet (replicate 32 3 @ replicate 32 5))]))) =
     [Call_ecdsa_verify (replicate 32 3 @ replicate 32 5) (replicate 64 7) (replicate 32 3) 32]
 \<and> fst (p256_sign toy (host [LOctet (bytes_octet (replicate 32 5)), LOctet (bytes_octet [])])) =
     Returned [LOctet \<lparr>len = 64, val = poke (replicate 32 0 @ replicate 32 5) (\<lambda>i. 0xAA)\<rparr>]
 \<and> fst (p256_verify toy (host [LOctet (bytes_octet (replicate 64 7)), LOctet (bytes_octet []),
          LOctet (bytes_octet (replicate 32 0 @ replicate 32 5))])) = Returned [LBoolean True]"
proof -
  let ?sk = "bytes_octet (replicate 32 5)"
  let ?pk = "bytes_octet (replicate 64 7)"
  let ?raw = "\<lparr>len = 64, val = (\<lambda>j. if j < 64 then val ?pk j else 0xAA)\<rparr>"
  have a: "allocate_raw_public_key toy (host [LOctet ?pk, LOctet m, LOctet sg]) 1 =
      (0, Some ?raw, None,
       host [LOctet ?pk, LOctet m, LOctet sg]\<lparr>heap := [Some (\<lambda>i. 0xAA), Some (\<lambda>i. 0xAA)]\<rparr>)" for m sg
    by (rule allocate_raw_64) simp_all
  have rb: "octet_bytes ?raw = replicate 64 7"
    by (simp add: raw_copy_bytes octet_bytes_bytes_octet)
  have 1: "fst (p256_sign toy (host [LOctet ?sk, LOctet (bytes_octet bs)])) =
        Returned [LOctet \<lparr>len = 64, val = poke (Hash toy bs @ replicate 32 5) (\<lambda>i. 0xAA)\<rparr>]
      \<and> calls (snd (p256_sign toy (host [LOctet ?sk, LOctet (bytes_octet bs)]))) =
        [Call_ecdsa_sign None (replicate 32 5) (Hash toy bs) 32]
      \<and> fst (p256_verify toy (host [LOctet ?pk, LOctet (bytes_octet bs),
            LOctet (bytes_octet (Hash toy bs @ replicate 32 5))])) = Returned [LBoolean True]
      \<and> calls (snd (p256_verify toy (host [LOctet ?pk, LOctet (bytes_octet bs),
            LOctet (bytes_octet (Hash toy bs @ replicate 32 5))]))) =
        [Call_ecdsa_verify (Hash toy bs @ replicate 32 5) (replicate 64 7) (Hash toy bs) 32]" for bs
    using sign_verify_same_digest [OF _ _ _ _ _ _ a,
        where Ls = "host [LOctet ?sk, LOctet (bytes_octet bs)]" and sk = ?sk
          and ms = "bytes_octet bs" and j = "\<lambda>i. 0xAA"
          and hp = "[Some (\<lambda>i. 0xAA), Some (\<lambda>i. 0xAA)]" and k = None
          and m1 = "bytes_octet bs" and sg1 = "bytes_octet (Hash toy bs @ replicate 32 5)"
          and mv = "bytes_octet bs" and sg = "bytes_octet (Hash toy bs @ replicate 32 5)"]
    by (simp add: octet_bytes_bytes_octet rb Hash_toy)
  from 1 [of "[1, 2, 3]"] 1 [of "[]"] show ?thesis
    by (simp add: Hash_toy)
qed

subsection \<open>Coordinates\<close>

lemma pub_xy_props:
  assumes a: "allocate_raw_public_key C L 1 = (0, Some raw, msg, L1)"
    and hp: "heap L1 = Some jx # Some jy # hp"
  shows "\<exists>x y. fst (p256_pub_xy C L) = Returned [LOctet x, LOctet y]
      \<and> len x = 32 \<and> octet_bytes x = map (val raw) [0..<32] \<and> val x 33 = 0
      \<and> len y = 32 \<and> octet_bytes y = map (\<lambda>j. val raw (32 + j)) [0..<32] \<and> val y 33 = 0
      \<and> calls (snd (p256_pub_xy C L)) = calls L1"
proof -
  define x where "x = \<lparr>len = 32, val = (\<lambda>j. if j < 32 then val raw j else jx j)(33 := 0)\<rparr>"
  define y where "y = \<lparr>len = 32, val = (\<lambda>j. if j < 32 then val raw (32 + j) else jy j)(33 := 0)\<rparr>"
  have nm: "msg = None"
    using allocate_zero [OF a] by simp
  have r: "fst (p256_pub_xy C L) = Returned [LOctet x, LOctet y]
      \<and> calls (snd (p256_pub_xy C L)) = calls L1"
    unfolding p256_pub_xy_def a x_def y_def
    using hp nm
    by (simp add: o_new_def o_alloc_def Let_def finish_def lua_return_def fold_upd_upt
        update_second_last cong: if_cong)
  have xb: "octet_bytes x = map (val raw) [0..<32]"
    by (simp add: x_def octet_bytes_def)
  have yb: "octet_bytes y = map (\<lambda>j. val raw (32 + j)) [0..<32]"
    by (simp add: y_def octet_bytes_def)
  have "len x = 32" and "val x 33 = 0" and "len y = 32" and "val y 33 = 0"
    by (simp_all add: x_def y_def)
  with r xb yb show ?thesis
    by blast
qed

text \<open>
  Claim C7. When the key normalizes to \<open>raw\<close> and the allocator has a buffer for each
  coordinate, \<open>p256_pub_xy\<close> returns two octets of length 32: the first holds bytes
  0..31 of the raw key, the second its bytes 32..63. The zero byte the function writes
  goes to index 33 of each buffer, beyond the 32 bytes that make the value. The only
  library calls are those of the normalizer.
\<close>

theorem pub_xy_splits:
  assumes "allocate_raw_public_key C L 1 = (0, Some raw, msg, L1)"
    and "heap L1 = Some jx # Some jy # hp"
  shows "\<exists>x y. fst (p256_pub_xy C L) = Returned [LOctet x, LOctet y]
      \<and> len x = PK_COORD_SIZE \<and> octet_bytes x = take 32 (octet_bytes raw)
      \<and> len y = PK_COORD_SIZE \<and> octet_bytes y = drop 32 (octet_bytes raw)
      \<and> length (octet_bytes x) = 32 \<and> length (octet_bytes y) = 32
      \<and> val x (PK_COORD_SIZE + 1) = 0 \<and> val y (PK_COORD_SIZE + 1) = 0
      \<and> calls (snd (p256_pub_xy C L)) = calls L1"
proof -
  have l: "len raw = 64"
    using allocate_zero [OF assms(1)] by simp
  note h = octet_halves [OF l]
  from pub_xy_props [OF assms] obtain x y where
    "fst (p256_pub_xy C L) = Returned [LOctet x, LOctet y]"
    "len x = 32" "octet_bytes x = map (val raw) [0..<32]"
    "len y = 32" "octet_bytes y = map (\<lambda>j. val raw (32 + j)) [0..<32]"
    "val x 33 = 0" "val y 33 = 0"
    "calls (snd (p256_pub_xy C L)) = calls L1"
    by blast
  then show ?thesis
    using h by (intro exI [of _ x] exI [of _ y]) simp
qed

theorem pub_xy_splits_witness:
  "\<exists>x y. fst (p256_pub_xy toy (host [LOctet (bytes_octet (replicate 32 1 @ replicate 32 2))])) =
            Returned [LOctet x, LOctet y]
     \<and> len x = 32 \<and> octet_bytes x = replicate 32 1
     \<and> len y = 32 \<and> octet_bytes y = replicate 32 2
     \<and> calls (snd (p256_pub_xy toy (host [LOctet (bytes_octet (replicate 32 1 @ replicate 32 2))]))) = []"
proof -
  let ?pk = "bytes_octet (replicate 32 1 @ replicate 32 2)"
  have a: "allocate_raw_public_key toy (host [LOctet ?pk]) 1 =
      (0, Some \<lparr>len = 64, val = (\<lambda>j. if j < 64 then val ?pk j else 0xAA)\<rparr>, None,
       host [LOctet ?pk]\<lparr>heap := [Some (\<lambda>i. 0xAA), Some (\<lambda>i. 0xAA)]\<rparr>)"
    by (rule allocate_raw_64) simp_all
  have rb: "octet_bytes \<lparr>len = 64, val = (\<lambda>j. if j < 64 then val ?pk j else 0xAA)\<rparr> =
      replicate 32 1 @ replicate 32 2"
    by (simp add: raw_copy_bytes octet_bytes_bytes_octet)
  show ?thesis
    using pub_xy_splits [OF a, of "\<lambda>i. 0xAA" "\<lambda>i. 0xAA" "[]"]
    by (auto simp add: rb)
qed

subsection \<open>Compression and coordinates\<close>

lemma compress_main:
  assumes "o_arg L 1 = Some pk" and "len pk = 64" and "heap L = Some j0 # Some j1 # hp"
    and "p256_compress_publickey C (octet_bytes pk) = (ret, c)"
  shows "fst (p256_compress_pub C L) =
           (if ret \<noteq> 0 then Threw ''Could not compress public key''
            else Returned [LOctet \<lparr>len = 33, val = poke c j1\<rparr>])"
proof -
  have rb: "peek 64 (\<lambda>j. if j < 64 then val pk j else j0 j) = octet_bytes pk"
    using assms(2) by (simp add: peek_def octet_bytes_def)
  show ?thesis
    unfolding p256_compress_pub_def allocate_raw_64 [OF assms(1,3,2)]
    using assms(4)
    by (simp add: o_new_def o_alloc_def Let_def finish_def lua_return_def rb)
qed

text \<open>
  What the binding adds to the library: if the library compresses the raw key \<open>pk\<close> to
  33 bytes \<open>c\<close> with a valid prefix and decompresses \<open>c\<close> to the bytes of \<open>pk\<close>, then
  the coordinates of the octet returned by \<open>p256_compress_pub\<close> are those of \<open>pk\<close>.
\<close>

lemma roundtrip_from_contract:
  assumes "o_arg L 1 = Some pk" and "len pk = PK_SIZE" and "heap L = Some j0 # Some j1 # hp"
    and "p256_compress_publickey C (octet_bytes pk) = (0, c)"
    and "length c = COMPRESSED_PK_SIZE" and "c ! 0 = 0x02 \<or> c ! 0 = 0x03"
    and "p256_uncompress_publickey C c = (0, octet_bytes pk)"
    and "o_arg L0 1 = Some pk" and "heap L0 = Some a0 # Some a1 # Some a2 # hp0"
    and "fst (p256_compress_pub C L) = Returned [LOctet cpk]"
    and "o_arg L' 1 = Some cpk" and "heap L' = Some b0 # Some b1 # Some b2 # hp'"
  shows "\<exists>x y x' y'.
       fst (p256_pub_xy C L0) = Returned [LOctet x, LOctet y]
     \<and> fst (p256_pub_xy C L') = Returned [LOctet x', LOctet y']
     \<and> octet_bytes x' = octet_bytes x \<and> octet_bytes y' = octet_bytes y
     \<and> octet_bytes x = take 32 (octet_bytes pk) \<and> octet_bytes y = drop 32 (octet_bytes pk)"
proof -
  note h = octet_halves [OF assms(2)]
  have lp: "length (octet_bytes pk) = 64"
    using assms(2) by (simp add: octet_bytes_def)
  \<comment> \<open>the coordinates of the raw key\<close>
  from pub_xy_props [OF allocate_raw_64 [OF assms(8) assms(9) assms(2), of C]]
  obtain x y where xy: "fst (p256_pub_xy C L0) = Returned [LOctet x, LOctet y]"
    and xb: "octet_bytes x = map (val pk) [0..<32]"
    and yb: "octet_bytes y = map (\<lambda>j. val pk (32 + j)) [0..<32]"
    by force
  \<comment> \<open>what compression returned\<close>
  have "fst (p256_compress_pub C L) = Returned [LOctet \<lparr>len = 33, val = poke c j1\<rparr>]"
    using compress_main [OF assms(1,2,3,4)] by simp
  with assms(10) have cpk: "cpk = \<lparr>len = 33, val = poke c j1\<rparr>"
    by simp
  have cb: "octet_bytes cpk = c"
    using peek_poke [of c 33 j1] assms(5) by (simp add: cpk octet_bytes_def peek_def)
  have c0: "val cpk 0 = c ! 0"
    using assms(5) by (simp add: cpk poke_def)
  \<comment> \<open>the coordinates of the compressed key\<close>
  have n: "allocate_raw_public_key C L' 1 =
      (0, Some \<lparr>len = 64, val = poke (octet_bytes pk) b0\<rparr>, None,
       log_call (Call_uncompress_publickey c) (L'\<lparr>heap := Some b1 # Some b2 # hp'\<rparr>))"
    using allocate_raw_33 [OF assms(11) assms(12), of C] assms(6,7) c0 cb
    by (auto simp add: cpk)
  have raw': "map (poke (octet_bytes pk) b0) [0..<32] = map (val pk) [0..<32]"
    "map (\<lambda>j. poke (octet_bytes pk) b0 (32 + j)) [0..<32] = map (\<lambda>j. val pk (32 + j)) [0..<32]"
    using assms(2) by (simp_all add: poke_def octet_bytes_def)
  from pub_xy_props [OF n, of b1 b2 hp']
  obtain x' y' where xy': "fst (p256_pub_xy C L') = Returned [LOctet x', LOctet y']"
    and xb': "octet_bytes x' = map (val pk) [0..<32]"
    and yb': "octet_bytes y' = map (\<lambda>j. val pk (32 + j)) [0..<32]"
    using raw' by force
  from xy xy' xb yb xb' yb' h show ?thesis
    by (intro exI [of _ x] exI [of _ y] exI [of _ x'] exI [of _ y']) simp
qed

text \<open>Facts about the encoding of coordinates and about square roots modulo a prime.\<close>

lemma be_decode_snoc: "be_decode (bs @ [b]) = 256 * be_decode bs + unat b"
  by (simp add: be_decode_def)

lemma length_be_encode [simp]: "length (be_encode k n) = k"
  by (induction k arbitrary: n) simp_all

lemma unat_byte_less: "unat (b :: byte) < 256"
  using unsigned_less [of b] by simp

lemma be_encode_decode: "be_encode (length bs) (be_decode bs) = bs"
proof (induction bs rule: rev_induct)
  case Nil
  then show ?case by simp
next
  case (snoc b bs)
  have "(256 * be_decode bs + unat b) div 256 = be_decode bs"
    using unat_byte_less [of b] by simp
  moreover have "(256 * be_decode bs + unat b) mod 256 = unat b"
    using unat_byte_less [of b] by simp
  ultimately show ?case
    using snoc by (simp add: be_decode_snoc)
qed

lemma is_prime_divisors:
  assumes "is_prime p" and "d dvd p"
  shows "d = 1 \<or> d = p"
proof -
  have "0 < p" using assms(1) by (simp add: is_prime_def)
  then have "0 < d" and "d \<le> p"
    using assms(2) by (auto intro: dvd_imp_le dvd_pos_nat)
  then show ?thesis
    using assms by (cases "d = 1 \<or> d = p") (auto simp: is_prime_def)
qed

lemma is_prime_dvd_mult:
  assumes "is_prime p" and "p dvd m * n"
  shows "p dvd m \<or> p dvd n"
proof (cases "p dvd m")
  case True
  then show ?thesis by simp
next
  case False
  have "coprime p m"
  proof (rule coprimeI)
    fix c assume "c dvd p" and "c dvd m"
    then show "is_unit c"
      using is_prime_divisors [OF assms(1)] False by auto
  qed
  then show ?thesis
    using assms(2) coprime_dvd_mult_right_iff by blast
qed

lemma square_root_unique_le:
  assumes p: "is_prime p" and "odd p" and "y < p" and "z \<le> y"
    and eq: "(y * y) mod p = (z * z) mod p" and par: "odd y = odd z"
  shows "y = z"
proof -
  have "z * z \<le> y * y"
    using assms(4) by (simp add: mult_le_mono)
  then have "p dvd y * y - z * z"
    using eq by (simp add: mod_eq_dvd_iff_nat)
  moreover have "y * y - z * z = (y - z) * (y + z)"
    using assms(4) by (simp add: algebra_simps diff_mult_distrib)
  ultimately have "p dvd (y - z) \<or> p dvd (y + z)"
    using is_prime_dvd_mult [OF p] by simp
  then show ?thesis
  proof
    assume "p dvd (y - z)"
    moreover have "y - z < p" using assms(3) by simp
    ultimately have "y - z = 0"
      by (meson dvd_imp_le not_less zero_less_iff_neq_zero)
    then show ?thesis using assms(4) by simp
  next
    assume d: "p dvd (y + z)"
    have "even (y + z)" using par by simp
    have "y + z < 2 * p" using assms(3,4) by simp
    moreover obtain k where k: "y + z = p * k"
      using d by (auto simp: dvd_def)
    ultimately have "k < 2"
      by simp
    then have "k = 0 \<or> k = 1"
      by auto
    then have "y + z = 0 \<or> y + z = p"
      using k by auto
    then show ?thesis
      using \<open>even (y + z)\<close> \<open>odd p\<close> by auto
  qed
qed

lemma square_root_unique:
  assumes "is_prime p" and "odd p" and "y < p" and "z < p"
    and "(y * y) mod p = (z * z) mod p" and "odd y = odd z"
  shows "y = z"
proof (cases "z \<le> y")
  case True
  then show ?thesis using square_root_unique_le [OF assms(1,2,3) True assms(5,6)] by simp
next
  case False
  then have "y \<le> z" by simp
  then show ?thesis
    using square_root_unique_le [OF assms(1,2,4) _ assms(5) [symmetric]] assms(6) by simp
qed

lemma uncompress_compress:
  assumes "is_prime p" and "odd p" and "on_curve p a b raw"
  shows "uncompress_spec p a b (snd (compress_spec raw)) = (0, raw)"
proof -
  let ?X = "take 32 raw" and ?Y = "drop 32 raw"
  let ?x = "be_decode ?X" and ?y = "be_decode ?Y"
  let ?pfx = "if odd ?y then 0x03 else (0x02 :: byte)"
  let ?P = "\<lambda>y. (y * y) mod p = curve_rhs p a b ?x \<and> odd y = (?pfx = 0x03)"
  from assms(3) have len: "length raw = 64" and x: "?x < p" and y: "?y < p"
    and eq: "(?y * ?y) mod p = curve_rhs p a b ?x"
    by (simp_all add: on_curve_def)
  have Py: "?P ?y"
    using eq by simp
  have "find ?P [0..<p] \<noteq> None"
    using Py y by (auto simp: find_None_iff)
  then obtain z where z: "find ?P [0..<p] = Some z"
    by auto
  then have "?P z" and "z < p"
    by (auto simp: find_Some_iff)
  then have "z = ?y"
    using square_root_unique [OF assms(1,2) _ y, of z] Py by auto
  have "be_encode 32 ?y = ?Y"
    using be_encode_decode [of ?Y] len by simp
  then show ?thesis
    using x z \<open>z = ?y\<close>
    by (simp add: uncompress_spec_def compress_spec_def Let_def)
qed

text \<open>
  Claim C9. Let the library compress and decompress as the specification words it, on a
  curve over the integers modulo an odd prime, and let \<open>pk\<close> be a raw 64-byte key whose
  point lies on the curve. Then \<open>p256_compress_pub\<close> returns one octet of 33 bytes, and
  \<open>p256_pub_xy\<close> called on that octet returns the same two coordinates as
  \<open>p256_pub_xy\<close> called on \<open>pk\<close>: the two halves of \<open>pk\<close>.
\<close>

theorem compress_roundtrip:
  assumes "is_prime p" and "odd p"
    and "p256_compress_publickey C = compress_spec"
    and "p256_uncompress_publickey C = uncompress_spec p a b"
    and "on_curve p a b (octet_bytes pk)"
    and "o_arg L 1 = Some pk" and "heap L = Some j0 # Some j1 # hp"
    and "o_arg L0 1 = Some pk" and "heap L0 = Some a0 # Some a1 # Some a2 # hp0"
    and "heap L' = Some b0 # Some b1 # Some b2 # hp'"
  shows "\<exists>cpk x y x' y'.
       fst (p256_compress_pub C L) = Returned [LOctet cpk] \<and> len cpk = COMPRESSED_PK_SIZE
     \<and> fst (p256_pub_xy C (L'\<lparr>stack := [LOctet cpk]\<rparr>)) = Returned [LOctet x', LOctet y']
     \<and> fst (p256_pub_xy C L0) = Returned [LOctet x, LOctet y]
     \<and> octet_bytes x' = octet_bytes x \<and> octet_bytes y' = octet_bytes y
     \<and> octet_bytes x = take 32 (octet_bytes pk) \<and> octet_bytes y = drop 32 (octet_bytes pk)"
proof -
  let ?c = "snd (compress_spec (octet_bytes pk))"
  let ?cpk = "\<lparr>len = 33, val = poke ?c j1\<rparr>"
  have lp: "len pk = 64"
    using assms(5) by (simp add: on_curve_def octet_bytes_def)
  have c: "p256_compress_publickey C (octet_bytes pk) = (0, ?c)"
    by (simp add: assms(3) compress_spec_def)
  have lc: "length ?c = 33"
    using assms(5) by (simp add: compress_spec_def on_curve_def)
  have c0: "?c ! 0 = 0x02 \<or> ?c ! 0 = 0x03"
    by (simp add: compress_spec_def)
  have u: "p256_uncompress_publickey C ?c = (0, octet_bytes pk)"
    using uncompress_compress [OF assms(1,2,5)] by (simp add: assms(4))
  have r: "fst (p256_compress_pub C L) = Returned [LOctet ?cpk]"
    using compress_main [OF assms(6) lp assms(7) c] by simp
  have arg: "o_arg (L'\<lparr>stack := [LOctet ?cpk]\<rparr>) 1 = Some ?cpk"
    by (simp add: o_arg_def)
  have hp': "heap (L'\<lparr>stack := [LOctet ?cpk]\<rparr>) = Some b0 # Some b1 # Some b2 # hp'"
    using assms(10) by simp
  from roundtrip_from_contract [OF assms(6) lp assms(7) c lc c0 u assms(8) assms(9) r arg hp']
  obtain x y x' y' where
    "fst (p256_pub_xy C L0) = Returned [LOctet x, LOctet y]"
    "fst (p256_pub_xy C (L'\<lparr>stack := [LOctet ?cpk]\<rparr>)) = Returned [LOctet x', LOctet y']"
    "octet_bytes x' = octet_bytes x" "octet_bytes y' = octet_bytes y"
    "octet_bytes x = take 32 (octet_bytes pk)" "octet_bytes y = drop 32 (octet_bytes pk)"
    by blast
  with r show ?thesis
    by (intro exI [of _ ?cpk] exI [of _ x] exI [of _ y] exI [of _ x'] exI [of _ y']) simp
qed

lemma be_decode_zeros: "be_decode (replicate n 0 @ bs) = be_decode bs"
proof -
  have "foldl (\<lambda>n b. 256 * n + unat b) 0 (replicate n (0 :: byte)) = 0"
    by (induction n) simp_all
  then show ?thesis
    by (simp add: be_decode_def)
qed

lemma is_prime_23: "is_prime 23"
  unfolding is_prime_def by code_simp

lemma point_on_curve23:
  "on_curve 23 1 1 ((replicate 31 0 @ [3]) @ (replicate 31 0 @ [10]))"
proof -
  have "be_decode (replicate 31 0 @ [3]) = 3" and "be_decode (replicate 31 0 @ [10]) = 10"
    by (simp_all add: be_decode_zeros) (simp_all add: be_decode_def)
  then show ?thesis
    by (simp add: on_curve_def curve_rhs_def)
qed

theorem compress_roundtrip_witness:
  "is_prime 23 \<and> odd (23 :: nat)
 \<and> on_curve 23 1 1 (octet_bytes (bytes_octet ((replicate 31 0 @ [3]) @ (replicate 31 0 @ [10]))))
 \<and> (\<exists>cpk x y x' y'.
       fst (p256_compress_pub curve23
             (host [LOctet (bytes_octet ((replicate 31 0 @ [3]) @ (replicate 31 0 @ [10])))])) =
         Returned [LOctet cpk]
     \<and> len cpk = 33
     \<and> fst (p256_pub_xy curve23 (host []\<lparr>stack := [LOctet cpk]\<rparr>)) = Returned [LOctet x', LOctet y']
     \<and> fst (p256_pub_xy curve23
             (host [LOctet (bytes_octet ((replicate 31 0 @ [3]) @ (replicate 31 0 @ [10])))])) =
         Returned [LOctet x, LOctet y]
     \<and> octet_bytes x' = octet_bytes x \<and> octet_bytes y' = octet_bytes y
     \<and> octet_bytes x = replicate 31 0 @ [3] \<and> octet_bytes y = replicate 31 0 @ [10])"
proof -
  let ?pk = "bytes_octet ((replicate 31 0 @ [3]) @ (replicate 31 0 @ [10]))"
  have oc: "on_curve 23 1 1 (octet_bytes ?pk)"
    using point_on_curve23 by (simp only: octet_bytes_bytes_octet)
  have f: "p256_compress_publickey curve23 = compress_spec"
    "p256_uncompress_publickey curve23 = uncompress_spec 23 1 1"
    by (simp_all add: curve23_def)
  have "\<exists>cpk x y x' y'.
       fst (p256_compress_pub curve23 (host [LOctet ?pk])) = Returned [LOctet cpk] \<and> len cpk = 33
     \<and> fst (p256_pub_xy curve23 (host []\<lparr>stack := [LOctet cpk]\<rparr>)) = Returned [LOctet x', LOctet y']
     \<and> fst (p256_pub_xy curve23 (host [LOctet ?pk])) = Returned [LOctet x, LOctet y]
     \<and> octet_bytes x' = octet_bytes x \<and> octet_bytes y' = octet_bytes y
     \<and> octet_bytes x = take 32 (octet_bytes ?pk) \<and> octet_bytes y = drop 32 (octet_bytes ?pk)"
    using compress_roundtrip [OF is_prime_23 _ f oc,
        where L = "host [LOctet ?pk]" and L0 = "host [LOctet ?pk]" and L' = "host []"
          and ?j0.0 = "\<lambda>i. 0xAA" and ?j1.0 = "\<lambda>i. 0xAA" and hp = "[Some (\<lambda>i. 0xAA)]"
          and ?a0.0 = "\<lambda>i. 0xAA" and ?a1.0 = "\<lambda>i. 0xAA" and ?a2.0 = "\<lambda>i. 0xAA" and ?hp0.0 = "[]"
          and ?b0.0 = "\<lambda>i. 0xAA" and ?b1.0 = "\<lambda>i. 0xAA" and ?b2.0 = "\<lambda>i. 0xAA" and hp' = "[]"]
    by simp
  then show ?thesis
    using is_prime_23 oc by (simp add: octet_bytes_bytes_octet)
qed

subsection \<open>A compressed key without a point\<close>

text \<open>
  For every library that reports a non-zero status on a well-formed compressed key, the
  normalizer leaves \<open>failed_msg\<close> unset and each caller returns what lies on top of
  its stack.
\<close>

lemma decompression_failure_general:
  assumes "o_arg L 1 = Some pk" and "len pk = 33" and "val pk 0 = 0x02 \<or> val pk 0 = 0x03"
    and "heap L = Some m # hp"
    and "fst (p256_uncompress_publickey C (octet_bytes pk)) \<noteq> 0"
  shows "fst (allocate_raw_public_key C L 1) \<noteq> 0
       \<and> fst (snd (snd (allocate_raw_public_key C L 1))) = None
       \<and> fst (p256_pubcheck C L) = Returned [last (stack L)]
       \<and> fst (p256_verify C L) = Returned [last (stack L)]
       \<and> fst (p256_compress_pub C L) = Returned [last (stack L)]
       \<and> fst (p256_pub_xy C L) = lua_return 2 L"
proof -
  have ne: "stack L \<noteq> []"
    using o_arg_in_range [OF assms(1)] by auto
  then have d: "drop (length (stack L) - Suc 0) (stack L) = [last (stack L)]"
    by (cases "stack L" rule: rev_cases) simp_all
  have le: "Suc 0 \<le> length (stack L)"
    using ne by (cases "stack L") simp_all
  have a: "allocate_raw_public_key C L 1 =
      (fst (p256_uncompress_publickey C (octet_bytes pk)),
       Some \<lparr>len = 64, val = poke (snd (p256_uncompress_publickey C (octet_bytes pk))) m\<rparr>, None,
       log_call (Call_uncompress_publickey (octet_bytes pk)) (L\<lparr>heap := hp\<rparr>))"
    using allocate_raw_33 [OF assms(1) assms(4) assms(2), of C] assms(3) by auto
  have 1: "fst (p256_pubcheck C L) = Returned [last (stack L)]"
    unfolding p256_pubcheck_def a using assms(5) d le by (simp add: finish_def lua_return_def)
  have 2: "fst (p256_verify C L) = Returned [last (stack L)]"
    unfolding p256_verify_def a using assms(5) d le by (simp add: finish_def lua_return_def)
  have 3: "fst (p256_compress_pub C L) = Returned [last (stack L)]"
    unfolding p256_compress_pub_def a using assms(5) d le by (simp add: finish_def lua_return_def)
  have 4: "fst (p256_pub_xy C L) = lua_return 2 L"
    unfolding p256_pub_xy_def a using assms(5) by (simp add: finish_def lua_return_def)
  have 0: "fst (allocate_raw_public_key C L 1) \<noteq> 0
      \<and> fst (snd (snd (allocate_raw_public_key C L 1))) = None"
    using a assms(5) by simp
  from 0 1 2 3 4 show ?thesis
    by simp
qed

text \<open>
  Claim C2 against the code: for the compressed key 0x02 followed by X = 1, which the
  library rejects, \<open>allocate_raw_public_key\<close> returns the non-zero status but leaves
  \<open>failed_msg\<close> unset, the only failing branch that does so. Each caller then skips
  \<open>THROW\<close> and returns normally: \<open>p256_pubcheck\<close> and \<open>p256_compress_pub\<close> return
  the key argument itself, \<open>p256_verify\<close> returns the signature argument, and
  \<open>p256_pub_xy\<close> announces two results with one value on the stack.
\<close>

theorem decompression_failure_not_raised:
  "fst (allocate_raw_public_key toy (host [LOctet (bytes_octet (0x02 # X_one))]) 1) = 1
 \<and> fst (snd (snd (allocate_raw_public_key toy (host [LOctet (bytes_octet (0x02 # X_one))]) 1))) = None
 \<and> fst (p256_pubcheck toy (host [LOctet (bytes_octet (0x02 # X_one))])) =
      Returned [LOctet (bytes_octet (0x02 # X_one))]
 \<and> fst (p256_verify toy (host [LOctet (bytes_octet (0x02 # X_one)), LOctet (bytes_octet [1, 2, 3]),
          LOctet (bytes_octet (replicate 64 9))])) = Returned [LOctet (bytes_octet (replicate 64 9))]
 \<and> fst (p256_pub_xy toy (host [LOctet (bytes_octet (0x02 # X_one))])) = Underflow
 \<and> fst (p256_compress_pub toy (host [LOctet (bytes_octet (0x02 # X_one))])) =
      Returned [LOctet (bytes_octet (0x02 # X_one))]"
proof -
  let ?bad = "bytes_octet (0x02 # X_one)"
  have l: "len ?bad = 33"
    by (simp add: X_one_def)
  have a: "allocate_raw_public_key toy (host (LOctet ?bad # rest)) 1 =
      (1, Some \<lparr>len = 64, val = (\<lambda>i. 0xAA)\<rparr>, None,
       log_call (Call_uncompress_publickey (0x02 # X_one))
         (host (LOctet ?bad # rest)\<lparr>heap := [Some (\<lambda>i. 0xAA), Some (\<lambda>i. 0xAA)]\<rparr>))" for rest
    using allocate_raw_33 [of "host (LOctet ?bad # rest)" 1 ?bad "\<lambda>i. 0xAA"
        "[Some (\<lambda>i. 0xAA), Some (\<lambda>i. 0xAA)]" toy] l
    by (simp add: octet_bytes_bytes_octet)
  have 1: "fst (p256_pubcheck toy (host [LOctet ?bad])) = Returned [LOctet ?bad]"
    unfolding p256_pubcheck_def a by (simp add: finish_def lua_return_def)
  have 2: "fst (p256_verify toy (host [LOctet ?bad, LOctet (bytes_octet [1, 2, 3]),
          LOctet (bytes_octet (replicate 64 9))])) = Returned [LOctet (bytes_octet (replicate 64 9))]"
    unfolding p256_verify_def a by (simp add: finish_def lua_return_def)
  have 3: "fst (p256_pub_xy toy (host [LOctet ?bad])) = Underflow"
    unfolding p256_pub_xy_def a by (simp add: finish_def lua_return_def)
  have 4: "fst (p256_compress_pub toy (host [LOctet ?bad])) = Returned [LOctet ?bad]"
    unfolding p256_compress_pub_def a by (simp add: finish_def lua_return_def)
  have 0: "fst (allocate_raw_public_key toy (host [LOctet ?bad]) 1) = 1
      \<and> fst (snd (snd (allocate_raw_public_key toy (host [LOctet ?bad]) 1))) = None"
    using a [of "[]"] by simp
  from 0 1 2 3 4 show ?thesis
    by simp
qed

end
